theory Spec2Isabelle
  imports Complex_Main "HOL-Library.AList" "HOL-Library.Sublist"
begin


section \<open>Decoded JSON and the Python operations the handlers apply to it\<close>

text \<open>
  Every request, argument mapping and remote payload of the program is decoded JSON.
  A Python \<open>dict\<close> is an association list read with \<open>map_of\<close> and written with
  \<open>AList.update\<close>, which replaces a present key in place and appends an absent one, as
  Python's insertion-ordered dictionaries do. Python's \<open>None\<close> is \<open>JNull\<close>.
  Floating-point members are not part of the model.
\<close>

datatype json =
    JNull
  | JBool bool
  | JInt int
  | JStr string
  | JList "json list"
  | JObj "(string \<times> json) list"

type_synonym dict = "(string \<times> json) list"

text \<open>Python truthiness, as tested by \<open>if x\<close> and \<open>not x\<close>.\<close>

fun truthy :: "json \<Rightarrow> bool" where
  "truthy JNull = False"
| "truthy (JBool b) = b"
| "truthy (JInt i) = (i \<noteq> 0)"
| "truthy (JStr s) = (s \<noteq> [])"
| "truthy (JList xs) = (xs \<noteq> [])"
| "truthy (JObj kvs) = (kvs \<noteq> [])"

text \<open>\<open>d.get(k)\<close> and \<open>d.get(k, default)\<close>.\<close>

definition dict_get :: "dict \<Rightarrow> string \<Rightarrow> json" where
  "dict_get d k = (case map_of d k of None \<Rightarrow> JNull | Some v \<Rightarrow> v)"

definition dict_get_default :: "dict \<Rightarrow> string \<Rightarrow> json \<Rightarrow> json" where
  "dict_get_default d k dflt = (case map_of d k of None \<Rightarrow> dflt | Some v \<Rightarrow> v)"

text \<open>Reading a member of a returned envelope (\<open>None\<close> when the key is absent).\<close>

fun field :: "json \<Rightarrow> string \<Rightarrow> json option" where
  "field (JObj kvs) k = map_of kvs k"
| "field _ k = None"

text \<open>Decimal rendering of integers, as \<open>str\<close> and f-strings print them.\<close>

definition digit :: "nat \<Rightarrow> char" where
  "digit n = ''0123456789'' ! n"

fun dec :: "nat \<Rightarrow> string" where
  "dec n = (if n < 10 then [digit n] else dec (n div 10) @ [digit (n mod 10)])"

definition str_int :: "int \<Rightarrow> string" where
  "str_int i = (if i < 0 then CHR ''-'' # dec (nat (- i)) else dec (nat i))"

text \<open>
  \<open>str(v)\<close> of a decoded value. Scalars are rendered exactly; the rendering of lists and
  objects (Python's \<open>repr\<close> with its quoting rules) is the parameter \<open>rp\<close>.
\<close>

fun py_str :: "(json \<Rightarrow> string) \<Rightarrow> json \<Rightarrow> string" where
  "py_str rp JNull = ''None''"
| "py_str rp (JBool b) = (if b then ''True'' else ''False'')"
| "py_str rp (JInt i) = str_int i"
| "py_str rp (JStr s) = s"
| "py_str rp v = rp v"

text \<open>The name Python prints for the type of a value in an \<open>AttributeError\<close>.\<close>

fun type_name :: "json \<Rightarrow> string" where
  "type_name JNull = ''NoneType''"
| "type_name (JBool b) = ''bool''"
| "type_name (JInt i) = ''int''"
| "type_name (JStr s) = ''str''"
| "type_name (JList xs) = ''list''"
| "type_name (JObj kvs) = ''dict''"

definition no_attribute_get :: "json \<Rightarrow> string" where
  "no_attribute_get v = [CHR 0x27] @ type_name v @ [CHR 0x27] @ '' object has no attribute '' @ [CHR 0x27] @ ''get'' @ [CHR 0x27]"


section \<open>simple-proxmox-mcp/server.py: the request dispatcher\<close>

text \<open>
  \<open>run_proxmox_api(action, **kwargs)\<close> starts the API script as a subprocess and returns
  its decoded output. The subprocess is outside the model: \<open>run\<close> stands for it, and the
  dispatcher returns, next to its response, the list of invocations it made.
\<close>

type_synonym api_call = "string \<times> dict"
type_synonym runner = "string \<Rightarrow> dict \<Rightarrow> json"

definition run_proxmox_api :: "runner \<Rightarrow> string \<Rightarrow> dict \<Rightarrow> json \<times> api_call list" where
  "run_proxmox_api run action kwargs = (run action kwargs, [(action, kwargs)])"

definition error_envelope :: "string \<Rightarrow> json" where
  "error_envelope msg = JObj [(''error'', JStr msg)]"

text \<open>
  A branch that reads \<open>arguments.get(...)\<close>: when \<open>arguments\<close> is not an object the
  first read raises \<open>AttributeError\<close>, which the handler's \<open>except Exception\<close> turns
  into an error envelope.
\<close>

definition with_arguments :: "json \<Rightarrow> (dict \<Rightarrow> json \<times> api_call list) \<Rightarrow> json \<times> api_call list" where
  "with_arguments arguments body =
     (case arguments of
        JObj a \<Rightarrow> body a
      | _ \<Rightarrow> (error_envelope (''Error handling MCP request: '' @ no_attribute_get arguments), []))"

definition node_vmid_tool :: "runner \<Rightarrow> string \<Rightarrow> json \<Rightarrow> json \<times> api_call list" where
  "node_vmid_tool run tool arguments =
     with_arguments arguments (\<lambda>a.
       let node = dict_get a ''node'';
           vmid = dict_get a ''vmid''
       in if \<not> truthy node \<or> \<not> truthy vmid
          then (error_envelope (''Node name and VM ID are required for '' @ tool), [])
          else run_proxmox_api run tool [(''node'', node), (''vmid'', vmid)])"

definition handle_mcp_request :: "(json \<Rightarrow> string) \<Rightarrow> runner \<Rightarrow> dict \<Rightarrow> json \<times> api_call list" where
  "handle_mcp_request rp run request =
     (let tool_name = dict_get request ''tool'';
          arguments = dict_get_default request ''arguments'' (JObj [])
      in
      if tool_name = JStr ''get_nodes'' then run_proxmox_api run ''get_nodes'' []
      else if tool_name = JStr ''get_node_status'' then
        with_arguments arguments (\<lambda>a.
          let node = dict_get a ''node''
          in if \<not> truthy node
             then (error_envelope ''Node name is required for get_node_status'', [])
             else run_proxmox_api run ''get_node_status'' [(''node'', node)])
      else if tool_name = JStr ''get_vms'' then run_proxmox_api run ''get_vms'' []
      else if tool_name = JStr ''execute_vm_command'' then
        with_arguments arguments (\<lambda>a.
          let node = dict_get a ''node'';
              vmid = dict_get a ''vmid'';
              command = dict_get a ''command''
          in if \<not> truthy node \<or> \<not> truthy vmid \<or> \<not> truthy command
             then (error_envelope ''Node name, VM ID, and command are required for execute_vm_command'', [])
             else run_proxmox_api run ''execute_vm_command''
                    [(''node'', node), (''vmid'', vmid), (''command'', command)])
      else if tool_name = JStr ''get_storage'' then run_proxmox_api run ''get_storage'' []
      else if tool_name = JStr ''get_cluster_status'' then run_proxmox_api run ''get_cluster_status'' []
      else if tool_name = JStr ''get_templates'' then run_proxmox_api run ''get_templates'' []
      else if tool_name = JStr ''clone_template'' then
        with_arguments arguments (\<lambda>a.
          let node = dict_get a ''node'';
              template_vmid = dict_get a ''template_vmid'';
              new_vm_name = dict_get a ''new_vm_name'';
              target_node = dict_get a ''target_node'';
              full_clone = dict_get_default a ''full_clone'' (JBool True);
              storage = dict_get a ''storage''
          in if \<not> truthy node \<or> \<not> truthy template_vmid \<or> \<not> truthy new_vm_name
             then (error_envelope ''Node name, template VM ID, and new VM name are required for clone_template'', [])
             else run_proxmox_api run ''clone_template''
                    [(''node'', node), (''vmid'', template_vmid), (''new_vm_name'', new_vm_name),
                     (''target_node'', target_node), (''full_clone'', full_clone), (''storage'', storage)])
      else if tool_name = JStr ''start_vm'' then node_vmid_tool run ''start_vm'' arguments
      else if tool_name = JStr ''stop_vm'' then node_vmid_tool run ''stop_vm'' arguments
      else if tool_name = JStr ''reboot_vm'' then node_vmid_tool run ''reboot_vm'' arguments
      else if tool_name = JStr ''update_vm_config'' then
        with_arguments arguments (\<lambda>a.
          let node = dict_get a ''node'';
              vmid = dict_get a ''vmid'';
              cpu = dict_get a ''cpu'';
              memory = dict_get a ''memory'';
              name = dict_get a ''name'';
              description = dict_get a ''description''
          in if \<not> truthy node \<or> \<not> truthy vmid
             then (error_envelope ''Node name and VM ID are required for update_vm_config'', [])
             else run_proxmox_api run ''update_vm_config''
                    [(''node'', node), (''vmid'', vmid), (''cpu'', cpu), (''memory'', memory),
                     (''name'', name), (''description'', description)])
      else if tool_name = JStr ''get_vm_config'' then node_vmid_tool run ''get_vm_config'' arguments
      else if tool_name = JStr ''get_task_status'' then
        with_arguments arguments (\<lambda>a.
          let node = dict_get a ''node'';
              task_id = dict_get a ''task_id''
          in if \<not> truthy node \<or> \<not> truthy task_id
             then (error_envelope ''Node name and task ID are required for get_task_status'', [])
             else run_proxmox_api run ''get_task_status'' [(''node'', node), (''task_id'', task_id)])
      else if tool_name = JStr ''wait_for_task'' then
        with_arguments arguments (\<lambda>a.
          let node = dict_get a ''node'';
              task_id = dict_get a ''task_id'';
              timeout = dict_get_default a ''timeout'' (JInt 300)
          in if \<not> truthy node \<or> \<not> truthy task_id
             then (error_envelope ''Node name and task ID are required for wait_for_task'', [])
             else run_proxmox_api run ''wait_for_task''
                    [(''node'', node), (''task_id'', task_id), (''timeout'', timeout)])
      else (error_envelope (''Unknown tool: '' @ py_str rp tool_name), []))"

text \<open>
  The operation registry of \<open>mcp_server_info\<close>: each tool's name with the
  \<open>required\<close> list of its input schema.
\<close>

definition tools :: "(string \<times> string list) list" where
  "tools =
    [(''get_nodes'', []),
     (''get_node_status'', [''node'']),
     (''get_vms'', []),
     (''execute_vm_command'', [''node'', ''vmid'', ''command'']),
     (''get_storage'', []),
     (''get_cluster_status'', []),
     (''get_templates'', []),
     (''clone_template'', [''node'', ''template_vmid'', ''new_vm_name'']),
     (''start_vm'', [''node'', ''vmid'']),
     (''stop_vm'', [''node'', ''vmid'']),
     (''reboot_vm'', [''node'', ''vmid'']),
     (''update_vm_config'', [''node'', ''vmid'']),
     (''get_vm_config'', [''node'', ''vmid'']),
     (''get_task_status'', [''node'', ''task_id'']),
     (''wait_for_task'', [''node'', ''task_id''])]"

text \<open>The sentence with which each tool reports that a required argument is missing.\<close>

definition required_message :: "string \<Rightarrow> string" where
  "required_message tool =
     (if tool = ''get_node_status'' then ''Node name is required for get_node_status''
      else if tool = ''execute_vm_command''
        then ''Node name, VM ID, and command are required for execute_vm_command''
      else if tool = ''clone_template''
        then ''Node name, template VM ID, and new VM name are required for clone_template''
      else if tool = ''get_task_status'' \<or> tool = ''wait_for_task''
        then ''Node name and task ID are required for '' @ tool
      else ''Node name and VM ID are required for '' @ tool)"

text \<open>A subprocess stand-in for closed examples: it answers every action with \<open>null\<close>.\<close>

definition null_runner :: runner where
  "null_runner action kwargs = JNull"

definition plain_repr :: "json \<Rightarrow> string" where
  "plain_repr v = ''<container>''"


section \<open>proxmox\_mcp/tools: the remote API client and the handlers' outcomes\<close>

text \<open>
  The handlers reach the cluster through a \<open>proxmoxer\<close> client. A remote call either
  returns the decoded \<open>data\<close> member of the reply or raises; a raised exception is
  \<open>Inl\<close> of its text \<open>str(e)\<close>. The client is a record with one member per endpoint the
  handlers use; a reply depends on the endpoint and its arguments. List endpoints yield
  lists of objects, object endpoints yield objects. A node summary is represented by its
  \<open>node\<close> member, the only one the handlers read. Path segments are the strings the client
  puts into the URL.
\<close>

type_synonym exn = string

record proxmox =
  nodes_get :: "exn + string list"
  node_lxc_get :: "string \<Rightarrow> exn + dict list"
  node_qemu_get :: "string \<Rightarrow> exn + dict list"
  node_storage_get :: "string \<Rightarrow> dict \<Rightarrow> exn + dict list"
  node_tasks_get :: "string \<Rightarrow> dict \<Rightarrow> exn + dict list"
  qemu_get :: "string \<Rightarrow> string \<Rightarrow> exn + dict"
  qemu_status_current_get :: "string \<Rightarrow> string \<Rightarrow> exn + dict"
  qemu_config_get :: "string \<Rightarrow> string \<Rightarrow> exn + dict"
  qemu_config_put :: "string \<Rightarrow> string \<Rightarrow> dict \<Rightarrow> exn + json"
  qemu_delete :: "string \<Rightarrow> string \<Rightarrow> exn + json"
  qemu_clone_post :: "string \<Rightarrow> string \<Rightarrow> dict \<Rightarrow> exn + json"
  cluster_nextid_get :: "exn + json"

text \<open>
  The base class \<open>ProxmoxTool\<close> (\<open>tools/base.py\<close>) is not among the sources. A handler
  ends either in \<open>return self._format_response(data, kind)\<close> or in
  \<open>self._handle_error(operation, e)\<close>; the outcome records which, and with what.
\<close>

datatype outcome =
    Response json string
  | Failed string exn

text \<open>Truthiness of an optional string argument (\<open>Optional[str]\<close>) and of an optional integer.\<close>

fun opt_truthy :: "string option \<Rightarrow> bool" where
  "opt_truthy None = False"
| "opt_truthy (Some s) = (s \<noteq> [])"

fun opt_int_truthy :: "int option \<Rightarrow> bool" where
  "opt_int_truthy None = False"
| "opt_int_truthy (Some i) = (i \<noteq> 0)"

text \<open>\<open>v == n\<close> for an integer literal \<open>n\<close>: Python equates \<open>True\<close> with 1 and \<open>False\<close> with 0.\<close>

fun py_eq_int :: "json \<Rightarrow> int \<Rightarrow> bool" where
  "py_eq_int (JInt i) n = (i = n)"
| "py_eq_int (JBool b) n = ((if b then 1 else 0) = n)"
| "py_eq_int _ n = False"

text \<open>
  \<open>d[k]\<close> on a dictionary raises \<open>KeyError\<close> when the key is absent; its text is the
  key in quotes.
\<close>

definition key_error :: "string \<Rightarrow> exn" where
  "key_error k = [CHR 0x27] @ k @ [CHR 0x27]"

definition index :: "dict \<Rightarrow> string \<Rightarrow> exn + json" where
  "index d k = (case map_of d k of None \<Rightarrow> Inl (key_error k) | Some v \<Rightarrow> Inr v)"

text \<open>\<open>d[k] = v\<close> on a dictionary.\<close>

definition set_item :: "dict \<Rightarrow> string \<Rightarrow> json \<Rightarrow> dict" where
  "set_item d k v = AList.update k v d"


subsection \<open>tools/template.py: create, update and delete a template\<close>

text \<open>The remote calls a template handler issues, in order.\<close>

datatype call =
    StatusCurrentGet string string
  | ConfigGet string string
  | ConfigPut string string dict
  | QemuDelete string string

definition is_mutation :: "call \<Rightarrow> bool" where
  "is_mutation c = (case c of ConfigPut n v p \<Rightarrow> True | QemuDelete n v \<Rightarrow> True | _ \<Rightarrow> False)"

text \<open>
  One remote call inside the handler's \<open>try\<close>: the call is recorded; if it raises, the
  handler ends in \<open>_handle_error\<close>, otherwise it continues with the reply.
\<close>

definition remote :: "call \<Rightarrow> exn + 'a \<Rightarrow> string \<Rightarrow> ('a \<Rightarrow> outcome \<times> call list) \<Rightarrow> outcome \<times> call list" where
  "remote c reply operation continue =
     (case reply of
        Inl e \<Rightarrow> (Failed operation e, [c])
      | Inr v \<Rightarrow> (case continue v of (out, cs) \<Rightarrow> (out, c # cs)))"

definition create_template ::
  "proxmox \<Rightarrow> (json \<Rightarrow> string) \<Rightarrow> string \<Rightarrow> string \<Rightarrow> string option \<Rightarrow> string option \<Rightarrow> outcome \<times> call list" where
  "create_template api rp node vmid name description =
     (let operation = ''create template from VM '' @ vmid in
      remote (StatusCurrentGet node vmid) (qemu_status_current_get api node vmid) operation (\<lambda>vm_status.
        if dict_get vm_status ''status'' \<noteq> JStr ''stopped'' then
          (Response (JObj [(''success'', JBool False),
                           (''message'', JStr (''VM '' @ vmid @ '' must be stopped before converting to template. Current status: ''
                                                @ py_str rp (dict_get vm_status ''status'')))])
                    ''template_operation'', [])
        else
          let params = [(''template'', JInt 1)];
              convert = remote (ConfigPut node vmid params) (qemu_config_put api node vmid params) operation (\<lambda>r.
                          (Response (JObj [(''success'', JBool True),
                                           (''message'', JStr (''VM '' @ vmid @ '' successfully converted to template''))])
                                    ''template_operation'', []))
          in if opt_truthy name \<or> opt_truthy description then
               let update_params =
                     (if opt_truthy name then [(''name'', JStr (the name))] else []) @
                     (if opt_truthy description then [(''description'', JStr (the description))] else [])
               in remote (ConfigPut node vmid update_params) (qemu_config_put api node vmid update_params)
                    operation (\<lambda>r. convert)
             else convert))"

definition not_a_template :: "string \<Rightarrow> outcome" where
  "not_a_template vmid =
     Response (JObj [(''success'', JBool False), (''message'', JStr (''VM '' @ vmid @ '' is not a template''))])
              ''template_operation''"

definition update_template ::
  "proxmox \<Rightarrow> string \<Rightarrow> string \<Rightarrow> string option \<Rightarrow> string option \<Rightarrow> int option \<Rightarrow> int option \<Rightarrow> outcome \<times> call list" where
  "update_template api node vmid name description cores memory =
     (let operation = ''update template '' @ vmid in
      remote (ConfigGet node vmid) (qemu_config_get api node vmid) operation (\<lambda>vm_config.
        if \<not> py_eq_int (dict_get vm_config ''template'') 1 then (not_a_template vmid, [])
        else
          let params =
                (if opt_truthy name then [(''name'', JStr (the name))] else []) @
                (if opt_truthy description then [(''description'', JStr (the description))] else []) @
                (if opt_int_truthy cores then [(''cores'', JInt (the cores))] else []) @
                (if opt_int_truthy memory then [(''memory'', JInt (the memory))] else [])
          in if params = [] then
               (Response (JObj [(''success'', JBool False), (''message'', JStr ''No update parameters provided'')])
                         ''template_operation'', [])
             else
               remote (ConfigPut node vmid params) (qemu_config_put api node vmid params) operation (\<lambda>r.
                 (Response (JObj [(''success'', JBool True),
                                  (''message'', JStr (''Template '' @ vmid @ '' successfully updated''))])
                           ''template_operation'', []))))"

definition delete_template :: "proxmox \<Rightarrow> string \<Rightarrow> string \<Rightarrow> outcome \<times> call list" where
  "delete_template api node vmid =
     (let operation = ''delete template '' @ vmid in
      remote (ConfigGet node vmid) (qemu_config_get api node vmid) operation (\<lambda>vm_config.
        if \<not> py_eq_int (dict_get vm_config ''template'') 1 then (not_a_template vmid, [])
        else
          remote (QemuDelete node vmid) (qemu_delete api node vmid) operation (\<lambda>result.
            (Response (JObj [(''success'', JBool True), (''task_id'', result),
                             (''message'', JStr (''Template '' @ vmid @ '' deletion initiated''))])
                      ''template_operation'', []))))"


subsection \<open>tools/task.py: listing tasks up to a limit\<close>

definition task_record :: "string \<Rightarrow> dict \<Rightarrow> dict" where
  "task_record node_name task =
     [(''upid'', dict_get_default task ''upid'' (JStr [])),
      (''type'', dict_get_default task ''type'' (JStr [])),
      (''status'', dict_get_default task ''status'' (JStr [])),
      (''node'', JStr node_name),
      (''starttime'', dict_get_default task ''starttime'' (JInt 0)),
      (''endtime'', dict_get_default task ''endtime'' (JInt 0)),
      (''id'', dict_get_default task ''id'' (JStr [])),
      (''user'', dict_get_default task ''user'' (JStr [])),
      (''vmid'', dict_get_default task ''vmid'' (JStr []))]"

text \<open>
  The inner loop over one node's tasks: append, then leave the loop once
  \<open>len(tasks) >= limit\<close>.
\<close>

fun collect_tasks :: "int \<Rightarrow> string \<Rightarrow> dict list \<Rightarrow> dict list \<Rightarrow> dict list" where
  "collect_tasks limit node_name [] tasks = tasks"
| "collect_tasks limit node_name (task # node_tasks) tasks =
     (let tasks' = tasks @ [task_record node_name task]
      in if int (length tasks') \<ge> limit then tasks'
         else collect_tasks limit node_name node_tasks tasks')"

text \<open>
  The outer loop over the nodes. The per-node call is not guarded: if it raises, the whole
  operation ends in \<open>_handle_error\<close>. The second component lists the nodes queried.
\<close>

fun tasks_from_nodes ::
  "proxmox \<Rightarrow> int \<Rightarrow> dict \<Rightarrow> string list \<Rightarrow> dict list \<Rightarrow> (exn + dict list) \<times> string list" where
  "tasks_from_nodes api limit params [] tasks = (Inr tasks, [])"
| "tasks_from_nodes api limit params (node_name # nodes) tasks =
     (case node_tasks_get api node_name params of
        Inl e \<Rightarrow> (Inl e, [node_name])
      | Inr node_tasks \<Rightarrow>
          let tasks' = collect_tasks limit node_name node_tasks tasks
          in if int (length tasks') \<ge> limit then (Inr tasks', [node_name])
             else (case tasks_from_nodes api limit params nodes tasks' of
                     (r, queried) \<Rightarrow> (r, node_name # queried)))"

definition task_params :: "int \<Rightarrow> string option \<Rightarrow> dict" where
  "task_params limit vmid =
     [(''limit'', JInt limit)] @ (if opt_truthy vmid then [(''vmid'', JStr (the vmid))] else [])"

definition get_tasks ::
  "proxmox \<Rightarrow> int \<Rightarrow> string option \<Rightarrow> string option \<Rightarrow> outcome \<times> string list" where
  "get_tasks api limit vmid node =
     (case (if opt_truthy node then Inr [the node] else nodes_get api) of
        Inl e \<Rightarrow> (Failed ''get tasks'' e, [])
      | Inr nodes \<Rightarrow>
          (case tasks_from_nodes api limit (task_params limit vmid) nodes [] of
             (Inl e, queried) \<Rightarrow> (Failed ''get tasks'' e, queried)
           | (Inr tasks, queried) \<Rightarrow> (Response (JList (map JObj tasks)) ''tasks'', queried)))"

text \<open>
  For stating results: the list a response carries (empty for a failure), and the task
  records the given nodes hold, in order.
\<close>

definition listed :: "outcome \<Rightarrow> json list" where
  "listed out = (case out of Response (JList xs) k \<Rightarrow> xs | _ \<Rightarrow> [])"

definition available :: "proxmox \<Rightarrow> dict \<Rightarrow> string list \<Rightarrow> dict list" where
  "available api params ns =
     concat (map (\<lambda>n. case node_tasks_get api n params of
                         Inl e \<Rightarrow> []
                       | Inr ts \<Rightarrow> map (task_record n) ts) ns)"


subsection \<open>Bucketing configuration keys (tools/template.py)\<close>

text \<open>
  \<open>for key, value in config.items(): if p(key): bucket[key] = value\<close>, starting from the
  bucket given.
\<close>

fun collect_keys :: "(string \<Rightarrow> bool) \<Rightarrow> dict \<Rightarrow> dict \<Rightarrow> dict" where
  "collect_keys p [] bucket = bucket"
| "collect_keys p ((key, value) # items) bucket =
     collect_keys p items (if p key then set_item bucket key value else bucket)"

definition disk_key :: "string \<Rightarrow> bool" where
  "disk_key key = (prefix ''scsi'' key \<or> prefix ''ide'' key \<or> prefix ''sata'' key)"

definition network_key :: "string \<Rightarrow> bool" where
  "network_key key = prefix ''net'' key"

definition get_template_details :: "proxmox \<Rightarrow> string \<Rightarrow> string \<Rightarrow> outcome" where
  "get_template_details api node vmid =
     (let operation = ''get template details for '' @ vmid in
      case qemu_get api node vmid of
        Inl e \<Rightarrow> Failed operation e
      | Inr vm_info \<Rightarrow>
          if \<not> py_eq_int (dict_get vm_info ''template'') 1 then not_a_template vmid
          else
            (case qemu_config_get api node vmid of
               Inl e \<Rightarrow> Failed operation e
             | Inr config \<Rightarrow>
                 let template_details =
                       [(''vmid'', JStr vmid),
                        (''node'', JStr node),
                        (''name'', dict_get_default vm_info ''name'' (JStr (''vm-'' @ vmid))),
                        (''description'', dict_get_default config ''description'' (JStr ''No description'')),
                        (''cores'', dict_get_default config ''cores'' (JStr ''N/A'')),
                        (''memory'', dict_get_default config ''memory'' (JStr ''N/A'')),
                        (''os_type'', dict_get_default config ''ostype'' (JStr ''N/A''))];
                     disks = collect_keys disk_key config [];
                     template_details = set_item template_details ''disks'' (JObj disks);
                     networks = collect_keys network_key config [];
                     template_details = set_item template_details ''networks'' (JObj networks)
                 in Response (JObj template_details) ''template_details''))"


subsection \<open>Cluster-wide lists: containers, templates, backups\<close>

text \<open>
  Each handler reads the node list and then asks every node in turn. The per-node call
  stands in a \<open>try\<close> of its own. The handlers return, next to the outcome, the warnings
  they wrote to their logger.
\<close>

definition container_warning :: "string \<Rightarrow> exn \<Rightarrow> string" where
  "container_warning node_name e = ''Failed to get containers for node '' @ node_name @ '': '' @ e"

fun containers_from_nodes ::
  "proxmox \<Rightarrow> string list \<Rightarrow> dict list \<Rightarrow> string list \<Rightarrow> dict list \<times> string list" where
  "containers_from_nodes api [] containers logged = (containers, logged)"
| "containers_from_nodes api (node_name # nodes) containers logged =
     (case node_lxc_get api node_name of
        Inl e \<Rightarrow> containers_from_nodes api nodes containers (logged @ [container_warning node_name e])
      | Inr node_containers \<Rightarrow>
          containers_from_nodes api nodes
            (foldl (\<lambda>cs container. cs @ [set_item container ''node'' (JStr node_name)])
                   containers node_containers)
            logged)"

definition get_containers :: "proxmox \<Rightarrow> outcome \<times> string list" where
  "get_containers api =
     (case nodes_get api of
        Inl e \<Rightarrow> (Failed ''get containers'' e, [])
      | Inr nodes \<Rightarrow>
          (case containers_from_nodes api nodes [] [] of
             (containers, logged) \<Rightarrow> (Response (JList (map JObj containers)) ''container_list'', logged)))"

text \<open>
  \<open>TemplateTools.get_templates\<close>: the templates of a node are its VMs with
  \<open>template == 1\<close>; each gets the node's name and, when its configuration can be read,
  description, cores, memory, OS type and disks. A failing configuration read is logged
  and the template is kept as it is.
\<close>

definition detail_warning :: "(json \<Rightarrow> string) \<Rightarrow> json \<Rightarrow> exn \<Rightarrow> string" where
  "detail_warning rp vmid e = ''Could not get detailed info for template '' @ py_str rp vmid @ '': '' @ e"

definition template_warning :: "string \<Rightarrow> exn \<Rightarrow> string" where
  "template_warning node_name e = ''Could not get templates for node '' @ node_name @ '': '' @ e"

definition is_template :: "dict \<Rightarrow> bool" where
  "is_template vm = py_eq_int (dict_get vm ''template'') 1"

definition enrich_template :: "proxmox \<Rightarrow> (json \<Rightarrow> string) \<Rightarrow> string \<Rightarrow> dict \<Rightarrow> dict \<times> string list" where
  "enrich_template api rp node_name template =
     (let template = set_item template ''node'' (JStr node_name);
          vmid = dict_get template ''vmid''
      in if truthy vmid then
           (case qemu_config_get api node_name (py_str rp vmid) of
              Inl e \<Rightarrow> (template, [detail_warning rp vmid e])
            | Inr config \<Rightarrow>
                let template = set_item template ''description''
                                 (dict_get_default config ''description'' (JStr ''No description''));
                    template = set_item template ''cores'' (dict_get_default config ''cores'' (JStr ''N/A''));
                    template = set_item template ''memory'' (dict_get_default config ''memory'' (JStr ''N/A''));
                    template = set_item template ''os_type'' (dict_get_default config ''ostype'' (JStr ''N/A''));
                    disks = collect_keys disk_key config [];
                    template = set_item template ''disks'' (JObj disks)
                in (template, []))
         else (template, []))"

fun enrich_templates ::
  "proxmox \<Rightarrow> (json \<Rightarrow> string) \<Rightarrow> string \<Rightarrow> dict list \<Rightarrow> dict list \<times> string list" where
  "enrich_templates api rp node_name [] = ([], [])"
| "enrich_templates api rp node_name (template # node_templates) =
     (case enrich_template api rp node_name template of
        (t, w) \<Rightarrow> (case enrich_templates api rp node_name node_templates of
                     (ts, ws) \<Rightarrow> (t # ts, w @ ws)))"

fun templates_from_nodes ::
  "proxmox \<Rightarrow> (json \<Rightarrow> string) \<Rightarrow> string list \<Rightarrow> dict list \<Rightarrow> string list \<Rightarrow> dict list \<times> string list" where
  "templates_from_nodes api rp [] templates logged = (templates, logged)"
| "templates_from_nodes api rp (node_name # nodes) templates logged =
     (case node_qemu_get api node_name of
        Inl e \<Rightarrow> templates_from_nodes api rp nodes templates (logged @ [template_warning node_name e])
      | Inr node_vms \<Rightarrow>
          (case enrich_templates api rp node_name (filter is_template node_vms) of
             (node_templates, warnings) \<Rightarrow>
               templates_from_nodes api rp nodes (templates @ node_templates) (logged @ warnings)))"

definition get_templates :: "proxmox \<Rightarrow> (json \<Rightarrow> string) \<Rightarrow> outcome \<times> string list" where
  "get_templates api rp =
     (case nodes_get api of
        Inl e \<Rightarrow> (Failed ''get templates'' e, [])
      | Inr nodes \<Rightarrow>
          (case templates_from_nodes api rp nodes [] [] of
             (templates, logged) \<Rightarrow> (Response (JList (map JObj templates)) ''vm_templates'', logged)))"

text \<open>
  \<open>BackupTools.list_backups\<close>: the handler of a failing node is \<open>except Exception: pass\<close>;
  nothing is logged.
\<close>

definition backup_record :: "string \<Rightarrow> dict \<Rightarrow> dict" where
  "backup_record node_name backup =
     [(''filename'', dict_get_default backup ''volid'' (JStr [])),
      (''node'', JStr node_name),
      (''vmid'', dict_get_default backup ''vmid'' (JStr [])),
      (''size'', dict_get_default backup ''size'' (JInt 0)),
      (''timestamp'', dict_get_default backup ''ctime'' (JInt 0)),
      (''format'', dict_get_default backup ''format'' (JStr []))]"

definition is_backup :: "dict \<Rightarrow> bool" where
  "is_backup backup = (dict_get backup ''content'' = JStr ''backup'')"

definition backup_params :: "string option \<Rightarrow> string option \<Rightarrow> dict" where
  "backup_params storage vmid =
     (if opt_truthy storage then [(''storage'', JStr (the storage))] else []) @
     (if opt_truthy vmid then [(''vmid'', JStr (the vmid))] else [])"

fun backups_from_nodes ::
  "proxmox \<Rightarrow> dict \<Rightarrow> string list \<Rightarrow> dict list \<Rightarrow> string list \<Rightarrow> dict list \<times> string list" where
  "backups_from_nodes api params [] backups logged = (backups, logged)"
| "backups_from_nodes api params (node_name # nodes) backups logged =
     (case node_storage_get api node_name params of
        Inl e \<Rightarrow> backups_from_nodes api params nodes backups logged
      | Inr node_backups \<Rightarrow>
          backups_from_nodes api params nodes
            (foldl (\<lambda>bs backup. if is_backup backup then bs @ [backup_record node_name backup] else bs)
                   backups node_backups)
            logged)"

definition list_backups :: "proxmox \<Rightarrow> string option \<Rightarrow> string option \<Rightarrow> outcome \<times> string list" where
  "list_backups api storage vmid =
     (case nodes_get api of
        Inl e \<Rightarrow> (Failed ''list backups'' e, [])
      | Inr nodes \<Rightarrow>
          (case backups_from_nodes api (backup_params storage vmid) nodes [] [] of
             (backups, logged) \<Rightarrow> (Response (JList (map JObj backups)) ''backups'', logged)))"


section \<open>proxmox\_mcp/formatting/templates.py: the text renderer\<close>

text \<open>
  The renderer builds a list of lines and joins it with newlines. A Python string is
  represented by its UTF-8 bytes. The theme (\<open>formatting/theme.py\<close>) and the formatters
  (\<open>formatting/formatters.py\<close>) are not among the sources, and floating-point division
  and the \<open>.1f\<close> format are not modelled; together with \<open>str.upper\<close> and \<open>repr\<close> they
  are members of the environment the renderer is given. A member that can raise returns
  \<open>Inl\<close>.
\<close>

record render_env =
  resource_icon :: "string \<Rightarrow> string"
  section_icon :: "string \<Rightarrow> string"
  format_bytes :: "json \<Rightarrow> exn + string"
  percent_1f :: "json \<Rightarrow> json \<Rightarrow> exn + string"
  upper :: "string \<Rightarrow> string"
  repr :: "json \<Rightarrow> string"

text \<open>\<open>sep.join(lines)\<close>.\<close>

fun join :: "string \<Rightarrow> string list \<Rightarrow> string" where
  "join sep [] = []"
| "join sep [x] = x"
| "join sep (x # y # ys) = x @ sep @ join sep (y # ys)"

definition newline :: string where
  "newline = [CHR 0x0A]"

text \<open>The bullet prefix of a detail line: two spaces, U+2022, one space.\<close>

definition bullet :: string where
  "bullet = [CHR 0x20, CHR 0x20, CHR 0xE2, CHR 0x80, CHR 0xA2, CHR 0x20]"

text \<open>Sequencing of steps that can raise: the first exception ends the computation.\<close>

definition attempt :: "exn + 'a \<Rightarrow> ('a \<Rightarrow> exn + 'b) \<Rightarrow> exn + 'b" where
  "attempt r continue = (case r of Inl e \<Rightarrow> Inl e | Inr v \<Rightarrow> continue v)"

definition quoted :: "string \<Rightarrow> string" where
  "quoted s = [CHR 0x27] @ s @ [CHR 0x27]"

text \<open>\<open>v.get(k, default)\<close> on a value that need not be a dictionary.\<close>

definition py_get :: "json \<Rightarrow> string \<Rightarrow> json \<Rightarrow> exn + json" where
  "py_get v k dflt =
     (case v of
        JObj d \<Rightarrow> Inr (dict_get_default d k dflt)
      | _ \<Rightarrow> Inl (no_attribute_get v))"

text \<open>\<open>v > 0\<close>: defined on integers and booleans, a \<open>TypeError\<close> otherwise.\<close>

definition py_positive :: "json \<Rightarrow> exn + bool" where
  "py_positive v =
     (case v of
        JInt i \<Rightarrow> Inr (0 < i)
      | JBool b \<Rightarrow> Inr b
      | _ \<Rightarrow> Inl (quoted ''>'' @ '' not supported between instances of '' @ quoted (type_name v)
                   @ '' and '' @ quoted ''int''))"

definition is_number :: "json \<Rightarrow> bool" where
  "is_number v = (case v of JInt i \<Rightarrow> True | JBool b \<Rightarrow> True | _ \<Rightarrow> False)"

text \<open>
  \<open>percent = (used / total * 100) if total > 0 else 0\<close>, printed with \<open>:.1f\<close>. The
  guard is evaluated first; when it fails the value is the integer 0, printed \<open>0.0\<close>.
\<close>

definition percent_text :: "render_env \<Rightarrow> json \<Rightarrow> json \<Rightarrow> exn + string" where
  "percent_text env used_value total_value =
     attempt (py_positive total_value) (\<lambda>positive.
       if positive then
         (if is_number used_value then percent_1f env used_value total_value
          else Inl (''unsupported operand type(s) for /: '' @ quoted (type_name used_value) @ '' and ''
                    @ quoted (type_name total_value)))
       else Inr ''0.0'')"

text \<open>\<open>v.upper()\<close>.\<close>

definition py_upper :: "render_env \<Rightarrow> json \<Rightarrow> exn + string" where
  "py_upper env v =
     (case v of
        JStr s \<Rightarrow> Inr (upper env s)
      | _ \<Rightarrow> Inl (quoted (type_name v) @ '' object has no attribute '' @ quoted ''upper''))"

definition show_value :: "render_env \<Rightarrow> json \<Rightarrow> string" where
  "show_value env v = py_str (repr env) v"

text \<open>
  The loop of a list template: each record's lines are appended to the result; the first
  record that raises ends the rendering.
\<close>

fun render_blocks :: "(dict \<Rightarrow> exn + string list) \<Rightarrow> dict list \<Rightarrow> string list \<Rightarrow> exn + string list" where
  "render_blocks block [] result = Inr result"
| "render_blocks block (entry # entries) result =
     (case block entry of
        Inl e \<Rightarrow> Inl e
      | Inr lines \<Rightarrow> render_blocks block entries (result @ lines))"

subsection \<open>node\_list and storage\_list: the percentage of a used/total pair\<close>



subsection \<open>container\_list\<close>

definition container_block :: "render_env \<Rightarrow> dict \<Rightarrow> exn + string list" where
  "container_block env container =
     (let memory = dict_get_default container ''memory'' (JObj []) in
      attempt (py_get memory ''used'' (JInt 0)) (\<lambda>memory_used.
      attempt (py_get memory ''total'' (JInt 0)) (\<lambda>memory_total.
      attempt (percent_text env memory_used memory_total) (\<lambda>memory_percent.
      attempt (index container ''name'') (\<lambda>name.
      attempt (index container ''vmid'') (\<lambda>vmid.
      attempt (index container ''status'') (\<lambda>status.
      attempt (py_upper env status) (\<lambda>status_upper.
      attempt (index container ''node'') (\<lambda>node.
      attempt (format_bytes env memory_used) (\<lambda>used_text.
      attempt (format_bytes env memory_total) (\<lambda>total_text.
        Inr [[],
             resource_icon env ''container'' @ '' '' @ show_value env name
               @ '' (ID: '' @ show_value env vmid @ '')'',
             bullet @ ''Status: '' @ status_upper,
             bullet @ ''Node: '' @ show_value env node,
             bullet @ ''CPU Cores: '' @ show_value env (dict_get_default container ''cpus'' (JStr ''N/A'')),
             bullet @ ''Memory: '' @ used_text @ '' / '' @ total_text
               @ '' ('' @ memory_percent @ ''%)''])))))))))))"

definition container_list :: "render_env \<Rightarrow> dict list \<Rightarrow> exn + string" where
  "container_list env containers =
     (if containers = [] then Inr (resource_icon env ''container'' @ '' No containers found'')
      else
        attempt (render_blocks (container_block env) containers
                   [resource_icon env ''container'' @ '' Containers''])
          (\<lambda>result. Inr (join newline result)))"

subsection \<open>container\_templates\<close>

text \<open>\<open>volid.split('/')[-1]\<close>: the part after the last slash.\<close>

definition last_segment :: "string \<Rightarrow> string" where
  "last_segment s = rev (takeWhile (\<lambda>c. c \<noteq> CHR ''/'') (rev s))"

text \<open>
  \<open>volid.split('/')[-1] if '/' in volid else volid\<close>, as the text that is printed. The
  membership test raises on a number, a boolean and \<open>None\<close>; a list or dictionary that
  contains the slash has no \<open>split\<close>.
\<close>

definition template_name_text :: "render_env \<Rightarrow> json \<Rightarrow> exn + string" where
  "template_name_text env volid =
     (case volid of
        JStr s \<Rightarrow> Inr (if CHR ''/'' \<in> set s then last_segment s else s)
      | JList xs \<Rightarrow>
          if JStr ''/'' \<in> set xs
          then Inl (quoted ''list'' @ '' object has no attribute '' @ quoted ''split'')
          else Inr (show_value env volid)
      | JObj d \<Rightarrow>
          if ''/'' \<in> set (map fst d)
          then Inl (quoted ''dict'' @ '' object has no attribute '' @ quoted ''split'')
          else Inr (show_value env volid)
      | _ \<Rightarrow> Inl (''argument of type '' @ quoted (type_name volid) @ '' is not iterable''))"

definition template_block :: "render_env \<Rightarrow> dict \<Rightarrow> exn + string list" where
  "template_block env template =
     (let volid = dict_get_default template ''volid'' (JStr ''Unknown'') in
      attempt (template_name_text env volid) (\<lambda>template_name.
      attempt (format_bytes env (dict_get_default template ''size'' (JInt 0))) (\<lambda>size_text.
        Inr [[],
             resource_icon env ''template'' @ '' '' @ template_name,
             bullet @ ''Volume ID: '' @ show_value env volid,
             bullet @ ''Size: '' @ size_text,
             bullet @ ''Format: '' @ show_value env (dict_get_default template ''format'' (JStr ''N/A''))])))"

definition container_templates :: "render_env \<Rightarrow> dict list \<Rightarrow> exn + string" where
  "container_templates env templates =
     (if templates = [] then Inr (resource_icon env ''template'' @ '' No container templates found'')
      else
        attempt (render_blocks (template_block env) templates
                   [resource_icon env ''template'' @ '' Container Templates''])
          (\<lambda>result. Inr (join newline result)))"

subsection \<open>container\_config\<close>

text \<open>
  \<open>for key, value in config.items(): if p(key): lines.append(f"  \<bullet> {key}: {value}")\<close>.
\<close>

fun config_lines :: "render_env \<Rightarrow> (string \<Rightarrow> bool) \<Rightarrow> dict \<Rightarrow> string list \<Rightarrow> string list" where
  "config_lines env p [] lines = lines"
| "config_lines env p ((key, value) # items) lines =
     config_lines env p items
       (if p key then lines @ [bullet @ key @ '': '' @ show_value env value] else lines)"

definition interface_key :: "string \<Rightarrow> bool" where
  "interface_key key = (prefix ''net'' key \<and> key \<noteq> ''netif'')"

definition mount_key :: "string \<Rightarrow> bool" where
  "mount_key key = (prefix ''mp'' key \<or> key = ''rootfs'')"

definition container_config :: "render_env \<Rightarrow> dict \<Rightarrow> string" where
  "container_config env config =
     (let result = [section_icon env ''configuration'' @ '' Container Configuration''];
          result = result @
            [[],
             bullet @ ''Hostname: '' @ show_value env (dict_get_default config ''hostname'' (JStr ''N/A'')),
             bullet @ ''CPU: '' @ show_value env (dict_get_default config ''cores'' (JStr ''N/A'')) @ '' cores'',
             bullet @ ''Memory: '' @ show_value env (dict_get_default config ''memory'' (JStr ''N/A'')) @ '' MB'',
             bullet @ ''Swap: '' @ show_value env (dict_get_default config ''swap'' (JStr ''N/A'')) @ '' MB'',
             bullet @ ''Start on boot: ''
               @ (if py_eq_int (dict_get_default config ''onboot'' (JInt 0)) 1 then ''Yes'' else ''No'')];
          net_interfaces = config_lines env interface_key config [];
          result = (if net_interfaces \<noteq> []
                    then result @ [[], section_icon env ''network'' @ '' Network Interfaces''] @ net_interfaces
                    else result);
          mount_points = config_lines env mount_key config [];
          result = (if mount_points \<noteq> []
                    then result @ [[], section_icon env ''storage'' @ '' Storage''] @ mount_points
                    else result)
      in join newline result)"


section \<open>Python's arithmetic on a used/total pair\<close>

text \<open>
  The operands of \<open>used / total * 100\<close> are decoded integers (a boolean counts as 1 or
  0); the quotient and the product are IEEE 754 binary64 values, Python's \<open>float\<close>. A
  float is a finite value, given by its sign (\<open>True\<close> for negative; zero is signed) and its
  magnitude, an infinity with its sign, or not-a-number.
\<close>

fun number_value :: "json \<Rightarrow> int option" where
  "number_value (JInt i) = Some i"
| "number_value (JBool b) = Some (if b then 1 else 0)"
| "number_value _ = None"

datatype pyfloat =
    Finite bool rat
  | Infinity bool
  | NaN

definition pow2 :: "int \<Rightarrow> rat" where
  "pow2 e = (if 0 \<le> e then 2 ^ nat e else 1 / 2 ^ nat (- e))"

text \<open>\<open>n.bit_length()\<close>: the number of binary digits of a natural number.\<close>

fun bit_length :: "nat \<Rightarrow> nat" where
  "bit_length n = (if n = 0 then 0 else Suc (bit_length (n div 2)))"

declare bit_length.simps [simp del]

text \<open>
  The binary exponent of a positive rational \<open>m\<close>: the \<open>e\<close> with
  \<open>pow2 e \<le> m < pow2 (e + 1)\<close>. The difference of the bit lengths of numerator and
  denominator is this exponent or exceeds it by one.
\<close>

definition exponent :: "rat \<Rightarrow> int" where
  "exponent m =
     (let (a, b) = quotient_of m;
          e = int (bit_length (nat a)) - int (bit_length (nat b))
      in if pow2 e \<le> m then e else e - 1)"

text \<open>Rounding to the nearest integer, a tie going to the even one.\<close>

definition round_half_even :: "rat \<Rightarrow> int" where
  "round_half_even x =
     (let f = \<lfloor>x\<rfloor>;
          r = x - of_int f
      in if r < 1 / 2 then f
         else if 1 / 2 < r then f + 1
         else if even f then f else f + 1)"

text \<open>
  The binary64 magnitude nearest to a non-negative rational, a tie going to the even
  significand: 53 significant bits, the least exponent being that of the subnormal
  numbers. The exponent is not bounded from above here; a result that reaches
  \<open>pow2 1024\<close> overflows.
\<close>

definition round_magnitude :: "rat \<Rightarrow> rat" where
  "round_magnitude m =
     (if m = 0 then 0
      else let ulp = pow2 (max (exponent m) (- 1022) - 52)
           in of_int (round_half_even (m / ulp)) * ulp)"

definition overflows :: "rat \<Rightarrow> bool" where
  "overflows m = (pow2 1024 \<le> m)"

text \<open>
  \<open>a / b\<close> on integers: the correctly rounded quotient. It raises \<open>ZeroDivisionError\<close>
  for a zero divisor and \<open>OverflowError\<close> when the rounded quotient is beyond the
  largest float.
\<close>

definition true_divide :: "int \<Rightarrow> int \<Rightarrow> exn + pyfloat" where
  "true_divide a b =
     (if b = 0 then Inl ''division by zero''
      else let m = round_magnitude (\<bar>of_int a / of_int b\<bar>)
           in if overflows m then Inl ''integer division result too large for a float''
              else Inr (Finite ((a < 0) \<noteq> (b < 0)) m))"

text \<open>
  \<open>x * y\<close> on floats: the correctly rounded product; it overflows to an infinity and
  never raises.
\<close>

definition float_mul :: "pyfloat \<Rightarrow> pyfloat \<Rightarrow> pyfloat" where
  "float_mul x y =
     (case (x, y) of
        (NaN, _) \<Rightarrow> NaN
      | (_, NaN) \<Rightarrow> NaN
      | (Infinity s, Infinity s') \<Rightarrow> Infinity (s \<noteq> s')
      | (Infinity s, Finite s' m) \<Rightarrow> if m = 0 then NaN else Infinity (s \<noteq> s')
      | (Finite s m, Infinity s') \<Rightarrow> if m = 0 then NaN else Infinity (s \<noteq> s')
      | (Finite s m, Finite s' m') \<Rightarrow>
          let p = round_magnitude (m * m')
          in if overflows p then Infinity (s \<noteq> s') else Finite (s \<noteq> s') p)"

text \<open>
  \<open>f"{x:.1f}"\<close>: the decimal with one digit after the point that is nearest to the
  exact value of \<open>x\<close>, a tie going to the even digit. The sign of a negative value stays
  when the digits are all zero.
\<close>

definition format_1f :: "pyfloat \<Rightarrow> string" where
  "format_1f x =
     (case x of
        NaN \<Rightarrow> ''nan''
      | Infinity s \<Rightarrow> (if s then ''-inf'' else ''inf'')
      | Finite s m \<Rightarrow>
          let n = nat (round_half_even (m * 10))
          in (if s then ''-'' else []) @ dec (n div 10) @ ''.'' @ dec (n mod 10))"

text \<open>
  \<open>used / total * 100\<close>, the value of the percentage when the guard has passed, and its
  text under \<open>:.1f\<close>.
\<close>

definition percent_float :: "int \<Rightarrow> int \<Rightarrow> exn + pyfloat" where
  "percent_float used_value total_value =
     attempt (true_divide used_value total_value) (\<lambda>quotient. Inr (float_mul quotient (Finite False 100)))"

definition python_percent_1f :: "json \<Rightarrow> json \<Rightarrow> exn + string" where
  "python_percent_1f used_value total_value =
     (case (number_value used_value, number_value total_value) of
        (Some a, Some b) \<Rightarrow> attempt (percent_float a b) (\<lambda>percent. Inr (format_1f percent))
      | _ \<Rightarrow> Inl (''unsupported operand type(s) for /: '' @ quoted (type_name used_value) @ '' and ''
                   @ quoted (type_name total_value)))"

text \<open>A rendering environment whose float arithmetic is Python's.\<close>

definition python_floats :: "render_env \<Rightarrow> render_env" where
  "python_floats env = env\<lparr>percent_1f := python_percent_1f\<rparr>"


section \<open>simple-proxmox-mcp/proxmox\_api.py\<close>

text \<open>
  The script's functions use the same client. What a function prints stands next to
  what it returns.
\<close>

subsection \<open>get\_vms and get\_templates\<close>

text \<open>\<open>[vm for vm in vms if vm['status'] == 'running']\<close>.\<close>

fun running :: "dict list \<Rightarrow> exn + dict list" where
  "running [] = Inr []"
| "running (vm # vms) =
     (case index vm ''status'' of
        Inl e \<Rightarrow> Inl e
      | Inr status \<Rightarrow>
          (case running vms of
             Inl e \<Rightarrow> Inl e
           | Inr rs \<Rightarrow> Inr (if status = JStr ''running'' then vm # rs else rs)))"

text \<open>\<open>{"vmid": vm['vmid'], "name": vm['name'], "status": vm['status']}\<close>.\<close>

definition running_summary :: "dict \<Rightarrow> exn + json" where
  "running_summary vm =
     (case index vm ''vmid'' of
        Inl e \<Rightarrow> Inl e
      | Inr vmid \<Rightarrow>
          (case index vm ''name'' of
             Inl e \<Rightarrow> Inl e
           | Inr name \<Rightarrow>
               (case index vm ''status'' of
                  Inl e \<Rightarrow> Inl e
                | Inr status \<Rightarrow> Inr (JObj [(''vmid'', vmid), (''name'', name), (''status'', status)]))))"

fun running_summaries :: "dict list \<Rightarrow> exn + json list" where
  "running_summaries [] = Inr []"
| "running_summaries (vm # vms) =
     (case running_summary vm of
        Inl e \<Rightarrow> Inl e
      | Inr s \<Rightarrow> (case running_summaries vms of Inl e \<Rightarrow> Inl e | Inr ss \<Rightarrow> Inr (s # ss)))"

text \<open>The loop over \<open>vms_by_node.items()\<close> that fills \<open>node_stats\<close>.\<close>

fun node_stats_loop :: "(string \<times> dict list) list \<Rightarrow> dict \<Rightarrow> exn + dict" where
  "node_stats_loop [] node_stats = Inr node_stats"
| "node_stats_loop ((node_name, node_vms) # items) node_stats =
     (case running node_vms of
        Inl e \<Rightarrow> Inl e
      | Inr node_running \<Rightarrow>
          (case running_summaries node_running of
             Inl e \<Rightarrow> Inl e
           | Inr summaries \<Rightarrow>
               node_stats_loop items
                 (set_item node_stats node_name
                    (JObj [(''total'', JInt (int (length node_vms))),
                           (''running'', JInt (int (length node_running))),
                           (''running_vms'', JList summaries)]))))"

definition vms_error_doc :: "string \<Rightarrow> exn \<Rightarrow> json" where
  "vms_error_doc node_name e = JObj [(''error'', JStr (''Failed to get VMs for node '' @ node_name @ '': '' @ e))]"

text \<open>
  The loop over the nodes: \<open>vms\<close>, \<open>vms_by_node\<close> and the documents printed for the nodes
  whose call raised.
\<close>

fun vms_from_nodes ::
  "proxmox \<Rightarrow> string list \<Rightarrow> dict list \<Rightarrow> (string \<times> dict list) list \<Rightarrow> json list
     \<Rightarrow> dict list \<times> (string \<times> dict list) list \<times> json list" where
  "vms_from_nodes api [] vms vms_by_node printed = (vms, vms_by_node, printed)"
| "vms_from_nodes api (node_name # nodes) vms vms_by_node printed =
     (case node_qemu_get api node_name of
        Inl e \<Rightarrow> vms_from_nodes api nodes vms vms_by_node (printed @ [vms_error_doc node_name e])
      | Inr node_vms \<Rightarrow>
          vms_from_nodes api nodes (vms @ node_vms) (AList.update node_name node_vms vms_by_node) printed)"

definition get_vms :: "proxmox \<Rightarrow> json \<times> json list" where
  "get_vms api =
     (case nodes_get api of
        Inl e \<Rightarrow> (error_envelope (''Failed to get VMs: '' @ e), [])
      | Inr nodes \<Rightarrow>
          (case vms_from_nodes api nodes [] [] [] of
             (vms, vms_by_node, printed) \<Rightarrow>
               (case running vms of
                  Inl e \<Rightarrow> (error_envelope (''Failed to get VMs: '' @ e), printed)
                | Inr running_vms \<Rightarrow>
                    (case node_stats_loop vms_by_node [] of
                       Inl e \<Rightarrow> (error_envelope (''Failed to get VMs: '' @ e), printed)
                     | Inr node_stats \<Rightarrow>
                         (JObj [(''total_vms'', JInt (int (length vms))),
                                (''total_running'', JInt (int (length running_vms))),
                                (''nodes'', JObj node_stats),
                                (''vms'', JList (map JObj vms))],
                          printed)))))"

definition templates_error_doc :: "string \<Rightarrow> exn \<Rightarrow> json" where
  "templates_error_doc node_name e =
     JObj [(''error'', JStr (''Failed to get templates for node '' @ node_name @ '': '' @ e))]"

fun api_templates_from_nodes ::
  "proxmox \<Rightarrow> string list \<Rightarrow> dict list \<Rightarrow> json list \<Rightarrow> dict list \<times> json list" where
  "api_templates_from_nodes api [] templates printed = (templates, printed)"
| "api_templates_from_nodes api (node_name # nodes) templates printed =
     (case node_qemu_get api node_name of
        Inl e \<Rightarrow> api_templates_from_nodes api nodes templates (printed @ [templates_error_doc node_name e])
      | Inr node_vms \<Rightarrow>
          api_templates_from_nodes api nodes
            (templates @ map (\<lambda>template. set_item template ''node'' (JStr node_name))
                             (filter is_template node_vms))
            printed)"

definition api_get_templates :: "proxmox \<Rightarrow> json \<times> json list" where
  "api_get_templates api =
     (case nodes_get api of
        Inl e \<Rightarrow> (error_envelope (''Failed to get templates: '' @ e), [])
      | Inr nodes \<Rightarrow>
          (case api_templates_from_nodes api nodes [] [] of
             (templates, printed) \<Rightarrow>
               (JObj [(''total_templates'', JInt (int (length templates))),
                      (''templates'', JList (map JObj templates))],
                printed)))"

subsection \<open>The script's output as the server reads it\<close>

text \<open>
  \<open>main\<close> ends in \<open>print(json.dumps(result, indent=2))\<close>: the standard output of a run is
  the documents the function printed, followed by its result.
\<close>

definition script_output :: "json \<times> json list \<Rightarrow> json list" where
  "script_output r = snd r @ [fst r]"

text \<open>
  \<open>run_proxmox_api\<close> of the server returns \<open>json.loads(result.stdout)\<close>. \<open>json.loads\<close>
  accepts a text that holds exactly one document; on any other it raises
  \<open>JSONDecodeError\<close>, which \<open>run_proxmox_api\<close> turns into an error envelope. The text of
  the decoding error (it names a position in the output) is the parameter
  \<open>decode_error\<close>.
\<close>

definition decoded_output :: "(json list \<Rightarrow> string) \<Rightarrow> json list \<Rightarrow> json" where
  "decoded_output decode_error documents =
     (case documents of
        [document] \<Rightarrow> document
      | _ \<Rightarrow> error_envelope (''Failed to parse JSON output: '' @ decode_error documents))"

subsection \<open>clone\_template and get\_next\_vmid\<close>

text \<open>
  \<open>random.randint(a, b)\<close> draws from the generator; \<open>entropy\<close> is the raw value drawn,
  mapped onto the closed range.
\<close>

definition randint :: "int \<Rightarrow> int \<Rightarrow> nat \<Rightarrow> int" where
  "randint a b entropy = a + int (entropy mod nat (b - a + 1))"

definition get_next_vmid :: "proxmox \<Rightarrow> nat \<Rightarrow> json" where
  "get_next_vmid api entropy =
     (case cluster_nextid_get api of
        Inr next_id \<Rightarrow> next_id
      | Inl e \<Rightarrow> JInt (randint 100 999 entropy))"

definition clone_params :: "json \<Rightarrow> string \<Rightarrow> string option \<Rightarrow> bool \<Rightarrow> string option \<Rightarrow> dict" where
  "clone_params next_vmid new_vm_name target_node full_clone storage =
     [(''newid'', next_vmid), (''name'', JStr new_vm_name), (''full'', JInt (if full_clone then 1 else 0))]
     @ (if opt_truthy target_node then [(''target'', JStr (the target_node))] else [])
     @ (if opt_truthy storage then [(''storage'', JStr (the storage))] else [])"

text \<open>
  The function returns its result; the second component lists the parameter sets of the
  clone requests it posted.
\<close>

definition clone_template ::
  "proxmox \<Rightarrow> (json \<Rightarrow> string) \<Rightarrow> nat \<Rightarrow> string \<Rightarrow> string \<Rightarrow> string \<Rightarrow> string option \<Rightarrow> bool
     \<Rightarrow> string option \<Rightarrow> json \<times> dict list" where
  "clone_template api rp entropy node template_vmid new_vm_name target_node full_clone storage =
     (let next_vmid = get_next_vmid api entropy;
          params = clone_params next_vmid new_vm_name target_node full_clone storage
      in case qemu_clone_post api node template_vmid params of
           Inl e \<Rightarrow>
             (error_envelope (''Failed to clone template '' @ template_vmid @ '' on node '' @ node @ '': '' @ e),
              [params])
         | Inr task_result \<Rightarrow>
             let task_id = (case task_result of
                              JObj d \<Rightarrow> (case map_of d ''data'' of Some v \<Rightarrow> v | None \<Rightarrow> task_result)
                            | _ \<Rightarrow> task_result)
             in (JObj [(''success'', JBool True),
                       (''task_id'', task_id),
                       (''new_vmid'', next_vmid),
                       (''message'', JStr (''Started cloning template '' @ template_vmid
                                            @ '' to create new VM '' @ quoted new_vm_name
                                            @ '' with ID '' @ py_str rp next_vmid))],
                 [params]))"

subsection \<open>wait\_for\_task\<close>








section \<open>Notions used to state the fan-out results\<close>

text \<open>
  The nodes, in cluster-list order, on which a per-node call returned or raised, and the
  contribution of a node whose call returned.
\<close>

definition succeeded :: "(string \<Rightarrow> exn + 'a) \<Rightarrow> string list \<Rightarrow> string list" where
  "succeeded per_node nodes = filter (\<lambda>n. \<not> isl (per_node n)) nodes"

definition failing :: "(string \<Rightarrow> exn + 'a) \<Rightarrow> string list \<Rightarrow> string list" where
  "failing per_node nodes = filter (\<lambda>n. isl (per_node n)) nodes"

definition container_contribution :: "proxmox \<Rightarrow> string \<Rightarrow> dict list" where
  "container_contribution api n =
     map (\<lambda>container. set_item container ''node'' (JStr n)) (projr (node_lxc_get api n))"

definition template_contribution :: "proxmox \<Rightarrow> (json \<Rightarrow> string) \<Rightarrow> string \<Rightarrow> dict list" where
  "template_contribution api rp n =
     map (\<lambda>template. fst (enrich_template api rp n template))
         (filter is_template (projr (node_qemu_get api n)))"

definition template_log :: "proxmox \<Rightarrow> (json \<Rightarrow> string) \<Rightarrow> string \<Rightarrow> string list" where
  "template_log api rp n =
     (case node_qemu_get api n of
        Inl e \<Rightarrow> [template_warning n e]
      | Inr node_vms \<Rightarrow>
          concat (map (\<lambda>template. snd (enrich_template api rp n template)) (filter is_template node_vms)))"

definition backup_contribution :: "proxmox \<Rightarrow> dict \<Rightarrow> string \<Rightarrow> dict list" where
  "backup_contribution api params n =
     map (backup_record n) (filter is_backup (projr (node_storage_get api n params)))"

definition api_template_contribution :: "proxmox \<Rightarrow> string \<Rightarrow> dict list" where
  "api_template_contribution api n =
     map (\<lambda>template. set_item template ''node'' (JStr n)) (filter is_template (projr (node_qemu_get api n)))"

text \<open>The data a response carries (\<open>null\<close> for a failure).\<close>

definition response_data :: "outcome \<Rightarrow> json" where
  "response_data out = (case out of Response d k \<Rightarrow> d | Failed operation e \<Rightarrow> JNull)"

text \<open>A rendered configuration line.\<close>

definition config_line :: "render_env \<Rightarrow> string \<times> json \<Rightarrow> string" where
  "config_line env item = bullet @ fst item @ '': '' @ show_value env (snd item)"


section \<open>A three-node cluster for closed examples\<close>

text \<open>
  Nodes \<open>pve1\<close>, \<open>pve2\<close>, \<open>pve3\<close>; every per-node call on \<open>pve2\<close> raises. VM 100 on
  \<open>pve1\<close> is running; VM 9000 is a template.
\<close>

definition demo_cluster :: proxmox where
  "demo_cluster = \<lparr>
     nodes_get = Inr [''pve1'', ''pve2'', ''pve3''],
     node_lxc_get = (\<lambda>n.
       if n = ''pve1'' then Inr [[(''vmid'', JInt 200), (''name'', JStr ''web''), (''status'', JStr ''running'')]]
       else if n = ''pve3'' then Inr [[(''vmid'', JInt 201), (''name'', JStr ''db''), (''status'', JStr ''stopped'')]]
       else Inl ''timed out''),
     node_qemu_get = (\<lambda>n.
       if n = ''pve1'' then Inr [[(''vmid'', JInt 100), (''name'', JStr ''app''), (''status'', JStr ''running'')],
                                [(''vmid'', JInt 9000), (''name'', JStr ''base''), (''status'', JStr ''stopped''),
                                 (''template'', JInt 1)]]
       else if n = ''pve3'' then Inr [[(''vmid'', JInt 101), (''name'', JStr ''db''), (''status'', JStr ''stopped'')]]
       else Inl ''timed out''),
     node_storage_get = (\<lambda>n p.
       if n = ''pve1'' then Inr [[(''volid'', JStr ''local:backup/a.vma''), (''content'', JStr ''backup''),
                                 (''vmid'', JInt 100), (''size'', JInt 1024)],
                                [(''volid'', JStr ''local:iso/b.iso''), (''content'', JStr ''iso'')]]
       else if n = ''pve3'' then Inr [[(''volid'', JStr ''local:backup/c.vma''), (''content'', JStr ''backup''),
                                      (''vmid'', JInt 101)]]
       else Inl ''timed out''),
     node_tasks_get = (\<lambda>n p.
       if n = ''pve1'' then Inr [[(''upid'', JStr ''U1''), (''type'', JStr ''qmstart'')],
                                [(''upid'', JStr ''U2''), (''type'', JStr ''vzdump'')],
                                [(''upid'', JStr ''U3'')]]
       else if n = ''pve3'' then Inr [[(''upid'', JStr ''U4'')]]
       else Inl ''timed out''),
     qemu_get = (\<lambda>n v.
       if v = ''9000'' then Inr [(''name'', JStr ''base''), (''template'', JInt 1)]
       else Inr [(''name'', JStr ''app'')]),
     qemu_status_current_get = (\<lambda>n v.
       if v = ''100'' then Inr [(''status'', JStr ''running'')] else Inr [(''status'', JStr ''stopped'')]),
     qemu_config_get = (\<lambda>n v.
       if v = ''9000'' then Inr [(''template'', JInt 1), (''cores'', JInt 2), (''scsi0'', JStr ''local:vm-9000-disk-0''),
                                (''net0'', JStr ''virtio,bridge=vmbr0''), (''netif'', JStr ''legacy'')]
       else Inr [(''cores'', JInt 1), (''ide2'', JStr ''none'')]),
     qemu_config_put = (\<lambda>n v p. Inr JNull),
     qemu_delete = (\<lambda>n v. Inr (JStr ''UPID:del'')),
     qemu_clone_post = (\<lambda>n v p. Inr (JStr ''UPID:clone'')),
     cluster_nextid_get = Inl ''timed out''
   \<rparr>"

text \<open>
  A rendering environment for closed examples: plain markers for the theme's icons, byte
  counts printed as a number followed by \<open>B\<close>, a fixed percentage text, and upper-casing of
  the two status words.
\<close>

definition demo_env :: render_env where
  "demo_env = \<lparr>
     resource_icon = (\<lambda>k. ''#''),
     section_icon = (\<lambda>k. ''=''),
     format_bytes = (\<lambda>v. Inr (py_str plain_repr v @ '' B'')),
     percent_1f = (\<lambda>u t. Inr ''25.0''),
     upper = (\<lambda>s. if s = ''running'' then ''RUNNING'' else if s = ''stopped'' then ''STOPPED'' else s),
     repr = plain_repr
   \<rparr>"




section \<open>Properties of the request dispatcher\<close>

text \<open>
  C1 (as amended). For every operation name that is not in the registry and every request
  carrying it, whatever its arguments, the dispatcher returns the envelope whose only
  member is \<open>error\<close>, with the message \<open>Unknown tool: \<close> followed by the name, and it
  invokes the API script not at all.
\<close>

theorem unknown_tool_error:
  assumes "dict_get request ''tool'' = JStr name"
    and "name \<notin> set (map fst tools)"
  shows "handle_mcp_request rp run request =
           (JObj [(''error'', JStr (''Unknown tool: '' @ name))], [])"
  using assms unfolding tools_def handle_mcp_request_def Let_def error_envelope_def
  by simp

theorem unknown_tool_error_witness:
  "dict_get [(''tool'', JStr ''shutdown_cluster''), (''arguments'', JObj [(''node'', JStr ''pve1'')])] ''tool''
     = JStr ''shutdown_cluster''
   \<and> ''shutdown_cluster'' \<notin> set (map fst tools)
   \<and> handle_mcp_request plain_repr null_runner
         [(''tool'', JStr ''shutdown_cluster''), (''arguments'', JObj [(''node'', JStr ''pve1'')])]
       = (JObj [(''error'', JStr ''Unknown tool: shutdown_cluster'')], [])"
proof -
  have h1: "dict_get [(''tool'', JStr ''shutdown_cluster''), (''arguments'', JObj [(''node'', JStr ''pve1'')])] ''tool''
              = JStr ''shutdown_cluster''"
    by (simp add: dict_get_def)
  have h2: "''shutdown_cluster'' \<notin> set (map fst tools)"
    by (simp add: tools_def)
  show ?thesis
    using h1 h2 unknown_tool_error [OF h1 h2, of plain_repr null_runner] by simp
qed

text \<open>
  The claim as written asks for an envelope with \<open>success = false\<close>. The envelope
  returned for \<open>unknown_op\<close> with no arguments has no \<open>success\<close> member at all.
\<close>

theorem unknown_tool_no_success_member:
  "handle_mcp_request plain_repr null_runner
      [(''tool'', JStr ''unknown_op''), (''arguments'', JObj [])]
     = (JObj [(''error'', JStr ''Unknown tool: unknown_op'')], [])
   \<and> field (JObj [(''error'', JStr ''Unknown tool: unknown_op'')]) ''success'' = None
   \<and> field (JObj [(''error'', JStr ''Unknown tool: unknown_op'')]) ''success'' \<noteq> Some (JBool False)"
  by (simp add: handle_mcp_request_def dict_get_def dict_get_default_def error_envelope_def Let_def)

lemma required_cases:
  assumes "(tool, required) \<in> set tools" and "r \<in> set required"
  shows "(tool = ''get_node_status'' \<and> r = ''node'')
       \<or> (tool = ''execute_vm_command'' \<and> (r = ''node'' \<or> r = ''vmid'' \<or> r = ''command''))
       \<or> (tool = ''clone_template'' \<and> (r = ''node'' \<or> r = ''template_vmid'' \<or> r = ''new_vm_name''))
       \<or> (tool = ''update_vm_config'' \<and> (r = ''node'' \<or> r = ''vmid''))
       \<or> ((tool = ''start_vm'' \<or> tool = ''stop_vm'' \<or> tool = ''reboot_vm'' \<or> tool = ''get_vm_config'')
            \<and> (r = ''node'' \<or> r = ''vmid''))
       \<or> ((tool = ''get_task_status'' \<or> tool = ''wait_for_task'') \<and> (r = ''node'' \<or> r = ''task_id''))"
proof -
  from assms(1) have "(tool, required) \<in> {(''get_nodes'', []),
     (''get_node_status'', [''node'']),
     (''get_vms'', []),
     (''execute_vm_command'', [''node'', ''vmid'', ''command'']),
     (''get_storage'', []),
     (''get_cluster_status'', []),
     (''get_templates'', []),
     (''clone_template'', [''node'', ''template_vmid'', ''new_vm_name'']),
     (''start_vm'', [''node'', ''vmid'']),
     (''stop_vm'', [''node'', ''vmid'']),
     (''reboot_vm'', [''node'', ''vmid'']),
     (''update_vm_config'', [''node'', ''vmid'']),
     (''get_vm_config'', [''node'', ''vmid'']),
     (''get_task_status'', [''node'', ''task_id'']),
     (''wait_for_task'', [''node'', ''task_id''])}"
    unfolding tools_def by simp
  then show ?thesis
    using assms(2)
    apply (elim insertE emptyE)
    apply simp_all
    done
qed

lemma missing_get_node_status:
  assumes "tool = ''get_node_status'' \<and> r = ''node''"
    and "\<not> truthy (dict_get a r)"
    and "dict_get request ''tool'' = JStr tool"
    and "dict_get_default request ''arguments'' (JObj []) = JObj a"
  shows "handle_mcp_request rp run request =
           (JObj [(''error'', JStr (required_message tool))], [])"
  using assms
  by (simp add: handle_mcp_request_def Let_def with_arguments_def error_envelope_def
        required_message_def)

lemma missing_execute_vm_command:
  assumes "tool = ''execute_vm_command'' \<and> (r = ''node'' \<or> r = ''vmid'' \<or> r = ''command'')"
    and "\<not> truthy (dict_get a r)"
    and "dict_get request ''tool'' = JStr tool"
    and "dict_get_default request ''arguments'' (JObj []) = JObj a"
  shows "handle_mcp_request rp run request =
           (JObj [(''error'', JStr (required_message tool))], [])"
proof -
  from assms(1,2) have "\<not> truthy (dict_get a ''node'') \<or> \<not> truthy (dict_get a ''vmid'')
         \<or> \<not> truthy (dict_get a ''command'')"
    by (elim conjE disjE) simp_all
  with assms(1,3,4) show ?thesis
    by (simp add: handle_mcp_request_def Let_def with_arguments_def error_envelope_def
          required_message_def)
qed

lemma missing_clone_template:
  assumes "tool = ''clone_template'' \<and> (r = ''node'' \<or> r = ''template_vmid'' \<or> r = ''new_vm_name'')"
    and "\<not> truthy (dict_get a r)"
    and "dict_get request ''tool'' = JStr tool"
    and "dict_get_default request ''arguments'' (JObj []) = JObj a"
  shows "handle_mcp_request rp run request =
           (JObj [(''error'', JStr (required_message tool))], [])"
proof -
  from assms(1,2) have "\<not> truthy (dict_get a ''node'') \<or> \<not> truthy (dict_get a ''template_vmid'')
         \<or> \<not> truthy (dict_get a ''new_vm_name'')"
    by (elim conjE disjE) simp_all
  with assms(1,3,4) show ?thesis
    by (simp add: handle_mcp_request_def Let_def with_arguments_def error_envelope_def
          required_message_def)
qed

lemma missing_update_vm_config:
  assumes "tool = ''update_vm_config'' \<and> (r = ''node'' \<or> r = ''vmid'')"
    and "\<not> truthy (dict_get a r)"
    and "dict_get request ''tool'' = JStr tool"
    and "dict_get_default request ''arguments'' (JObj []) = JObj a"
  shows "handle_mcp_request rp run request =
           (JObj [(''error'', JStr (required_message tool))], [])"
proof -
  from assms(1,2) have "\<not> truthy (dict_get a ''node'') \<or> \<not> truthy (dict_get a ''vmid'')"
    by (elim conjE disjE) simp_all
  with assms(1,3,4) show ?thesis
    by (simp add: handle_mcp_request_def Let_def with_arguments_def error_envelope_def
          required_message_def)
qed

lemma missing_node_vmid:
  assumes "(tool = ''start_vm'' \<or> tool = ''stop_vm'' \<or> tool = ''reboot_vm'' \<or> tool = ''get_vm_config'')
            \<and> (r = ''node'' \<or> r = ''vmid'')"
    and "\<not> truthy (dict_get a r)"
    and "dict_get request ''tool'' = JStr tool"
    and "dict_get_default request ''arguments'' (JObj []) = JObj a"
  shows "handle_mcp_request rp run request =
           (JObj [(''error'', JStr (required_message tool))], [])"
proof -
  from assms(1,2) have missing: "\<not> truthy (dict_get a ''node'') \<or> \<not> truthy (dict_get a ''vmid'')"
    by (elim conjE disjE) simp_all
  from assms(1) have "tool = ''start_vm'' \<or> tool = ''stop_vm'' \<or> tool = ''reboot_vm''
      \<or> tool = ''get_vm_config''"
    by (rule conjunct1)
  then show ?thesis
  proof (elim disjE)
    assume "tool = ''start_vm''"
    with missing assms(3,4) show ?thesis
      by (simp add: handle_mcp_request_def Let_def with_arguments_def error_envelope_def
            required_message_def node_vmid_tool_def)
  next
    assume "tool = ''stop_vm''"
    with missing assms(3,4) show ?thesis
      by (simp add: handle_mcp_request_def Let_def with_arguments_def error_envelope_def
            required_message_def node_vmid_tool_def)
  next
    assume "tool = ''reboot_vm''"
    with missing assms(3,4) show ?thesis
      by (simp add: handle_mcp_request_def Let_def with_arguments_def error_envelope_def
            required_message_def node_vmid_tool_def)
  next
    assume "tool = ''get_vm_config''"
    with missing assms(3,4) show ?thesis
      by (simp add: handle_mcp_request_def Let_def with_arguments_def error_envelope_def
            required_message_def node_vmid_tool_def)
  qed
qed

lemma missing_task_argument:
  assumes "(tool = ''get_task_status'' \<or> tool = ''wait_for_task'') \<and> (r = ''node'' \<or> r = ''task_id'')"
    and "\<not> truthy (dict_get a r)"
    and "dict_get request ''tool'' = JStr tool"
    and "dict_get_default request ''arguments'' (JObj []) = JObj a"
  shows "handle_mcp_request rp run request =
           (JObj [(''error'', JStr (required_message tool))], [])"
proof -
  from assms(1,2) have missing: "\<not> truthy (dict_get a ''node'') \<or> \<not> truthy (dict_get a ''task_id'')"
    by (elim conjE disjE) simp_all
  from assms(1) have "tool = ''get_task_status'' \<or> tool = ''wait_for_task''"
    by (rule conjunct1)
  then show ?thesis
  proof (elim disjE)
    assume "tool = ''get_task_status''"
    with missing assms(3,4) show ?thesis
      by (simp add: handle_mcp_request_def Let_def with_arguments_def error_envelope_def
            required_message_def)
  next
    assume "tool = ''wait_for_task''"
    with missing assms(3,4) show ?thesis
      by (simp add: handle_mcp_request_def Let_def with_arguments_def error_envelope_def
            required_message_def)
  qed
qed

text \<open>
  C2 (as amended). For every tool of the registry and every argument mapping in which one
  of the tool's required arguments is absent, \<open>null\<close>, empty or otherwise falsy, the
  dispatcher returns the envelope whose only member is \<open>error\<close>, with the tool's sentence
  listing its required arguments, and it invokes the API script not at all.
\<close>

theorem missing_required_argument:
  assumes "(tool, required) \<in> set tools"
    and "r \<in> set required"
    and "\<not> truthy (dict_get args r)"
    and "dict_get request ''tool'' = JStr tool"
    and "dict_get_default request ''arguments'' (JObj []) = JObj args"
  shows "handle_mcp_request rp run request =
           (JObj [(''error'', JStr (required_message tool))], [])"
  using required_cases [OF assms(1,2)]
proof (elim disjE)
  assume "tool = ''get_node_status'' \<and> r = ''node''"
  then show ?thesis using assms(3-5) by (rule missing_get_node_status)
next
  assume "tool = ''execute_vm_command'' \<and> (r = ''node'' \<or> r = ''vmid'' \<or> r = ''command'')"
  then show ?thesis using assms(3-5) by (rule missing_execute_vm_command)
next
  assume "tool = ''clone_template'' \<and> (r = ''node'' \<or> r = ''template_vmid'' \<or> r = ''new_vm_name'')"
  then show ?thesis using assms(3-5) by (rule missing_clone_template)
next
  assume "tool = ''update_vm_config'' \<and> (r = ''node'' \<or> r = ''vmid'')"
  then show ?thesis using assms(3-5) by (rule missing_update_vm_config)
next
  assume "(tool = ''start_vm'' \<or> tool = ''stop_vm'' \<or> tool = ''reboot_vm'' \<or> tool = ''get_vm_config'')
            \<and> (r = ''node'' \<or> r = ''vmid'')"
  then show ?thesis using assms(3-5) by (rule missing_node_vmid)
next
  assume "(tool = ''get_task_status'' \<or> tool = ''wait_for_task'') \<and> (r = ''node'' \<or> r = ''task_id'')"
  then show ?thesis using assms(3-5) by (rule missing_task_argument)
qed

theorem missing_required_argument_witness:
  "(''clone_template'', [''node'', ''template_vmid'', ''new_vm_name'']) \<in> set tools
   \<and> ''new_vm_name'' \<in> set [''node'', ''template_vmid'', ''new_vm_name'']
   \<and> \<not> truthy (dict_get [(''node'', JStr ''pve1''), (''template_vmid'', JInt 9000), (''new_vm_name'', JStr [])] ''new_vm_name'')
   \<and> handle_mcp_request plain_repr null_runner
         [(''tool'', JStr ''clone_template''),
          (''arguments'', JObj [(''node'', JStr ''pve1''), (''template_vmid'', JInt 9000), (''new_vm_name'', JStr [])])]
       = (JObj [(''error'', JStr ''Node name, template VM ID, and new VM name are required for clone_template'')], [])"
proof -
  let ?args = "[(''node'', JStr ''pve1''), (''template_vmid'', JInt 9000), (''new_vm_name'', JStr [])]"
  let ?req = "[(''tool'', JStr ''clone_template''), (''arguments'', JObj ?args)]"
  have h1: "(''clone_template'', [''node'', ''template_vmid'', ''new_vm_name'']) \<in> set tools"
    by (simp add: tools_def)
  have h2: "''new_vm_name'' \<in> set [''node'', ''template_vmid'', ''new_vm_name'']"
    by simp
  have h3: "\<not> truthy (dict_get ?args ''new_vm_name'')"
    by (simp add: dict_get_def)
  have h4: "dict_get ?req ''tool'' = JStr ''clone_template''"
    by (simp add: dict_get_def)
  have h5: "dict_get_default ?req ''arguments'' (JObj []) = JObj ?args"
    by (simp add: dict_get_default_def)
  have "required_message ''clone_template''
          = ''Node name, template VM ID, and new VM name are required for clone_template''"
    by (simp add: required_message_def)
  then show ?thesis
    using h1 h2 h3 missing_required_argument [OF h1 h2 h3 h4 h5, of plain_repr null_runner]
    by simp
qed

text \<open>
  The claim as written asks for \<open>success = false\<close>. For \<open>start_vm\<close> with only
  \<open>node\<close> given, the envelope has no \<open>success\<close> member; no invocation is made.
\<close>

theorem missing_vmid_no_success_member:
  "handle_mcp_request plain_repr null_runner
      [(''tool'', JStr ''start_vm''), (''arguments'', JObj [(''node'', JStr ''pve1'')])]
     = (JObj [(''error'', JStr ''Node name and VM ID are required for start_vm'')], [])
   \<and> field (JObj [(''error'', JStr ''Node name and VM ID are required for start_vm'')]) ''success'' = None
   \<and> field (JObj [(''error'', JStr ''Node name and VM ID are required for start_vm'')]) ''success''
       \<noteq> Some (JBool False)"
  by (simp add: handle_mcp_request_def dict_get_def dict_get_default_def error_envelope_def
        Let_def node_vmid_tool_def with_arguments_def)


section \<open>Properties of the template and task handlers\<close>

text \<open>
  C5. Each of the three handlers is taken on its own. Whenever the status read of
  \<open>create_template\<close> returns a status other than \<open>stopped\<close>, the handler returns a
  response (not an error raised past the handler) whose data has \<open>success = false\<close> and a
  message naming the VM and its status, and the only remote call it made is the status
  read. Whenever the configuration read of \<open>update_template\<close> returns a configuration that
  does not carry \<open>template = 1\<close>, the handler returns a response with \<open>success = false\<close> and
  the message that the VM is not a template, and the only remote call it made is the
  configuration read; likewise for \<open>delete_template\<close>. In each case no \<open>config.put\<close> and no
  \<open>delete\<close> is issued.
\<close>

theorem template_preconditions:
  "(qemu_status_current_get capi cnode cvmid = Inr vm_status
      \<and> dict_get vm_status ''status'' \<noteq> JStr ''stopped''
    \<longrightarrow> create_template capi rp cnode cvmid cname cdescription =
          (Response (JObj [(''success'', JBool False),
                           (''message'', JStr (''VM '' @ cvmid @ '' must be stopped before converting to template. Current status: ''
                                                @ py_str rp (dict_get vm_status ''status'')))])
                    ''template_operation'',
           [StatusCurrentGet cnode cvmid])
        \<and> filter is_mutation (snd (create_template capi rp cnode cvmid cname cdescription)) = [])
 \<and> (qemu_config_get uapi unode uvmid = Inr uconfig
      \<and> \<not> py_eq_int (dict_get uconfig ''template'') 1
    \<longrightarrow> update_template uapi unode uvmid uname udescription cores memory =
          (Response (JObj [(''success'', JBool False), (''message'', JStr (''VM '' @ uvmid @ '' is not a template''))])
                    ''template_operation'',
           [ConfigGet unode uvmid])
        \<and> filter is_mutation (snd (update_template uapi unode uvmid uname udescription cores memory)) = [])
 \<and> (qemu_config_get dapi dnode dvmid = Inr dconfig
      \<and> \<not> py_eq_int (dict_get dconfig ''template'') 1
    \<longrightarrow> delete_template dapi dnode dvmid =
          (Response (JObj [(''success'', JBool False), (''message'', JStr (''VM '' @ dvmid @ '' is not a template''))])
                    ''template_operation'',
           [ConfigGet dnode dvmid])
        \<and> filter is_mutation (snd (delete_template dapi dnode dvmid)) = [])"
proof (intro conjI impI)
  assume "qemu_status_current_get capi cnode cvmid = Inr vm_status
      \<and> dict_get vm_status ''status'' \<noteq> JStr ''stopped''"
  then show "create_template capi rp cnode cvmid cname cdescription =
          (Response (JObj [(''success'', JBool False),
                           (''message'', JStr (''VM '' @ cvmid @ '' must be stopped before converting to template. Current status: ''
                                                @ py_str rp (dict_get vm_status ''status'')))])
                    ''template_operation'',
           [StatusCurrentGet cnode cvmid])"
    and "filter is_mutation (snd (create_template capi rp cnode cvmid cname cdescription)) = []"
    by (simp_all add: create_template_def remote_def Let_def is_mutation_def)
next
  assume "qemu_config_get uapi unode uvmid = Inr uconfig
      \<and> \<not> py_eq_int (dict_get uconfig ''template'') 1"
  then show "update_template uapi unode uvmid uname udescription cores memory =
          (Response (JObj [(''success'', JBool False), (''message'', JStr (''VM '' @ uvmid @ '' is not a template''))])
                    ''template_operation'',
           [ConfigGet unode uvmid])"
    and "filter is_mutation (snd (update_template uapi unode uvmid uname udescription cores memory)) = []"
    by (simp_all add: update_template_def remote_def not_a_template_def Let_def is_mutation_def)
next
  assume "qemu_config_get dapi dnode dvmid = Inr dconfig
      \<and> \<not> py_eq_int (dict_get dconfig ''template'') 1"
  then show "delete_template dapi dnode dvmid =
          (Response (JObj [(''success'', JBool False), (''message'', JStr (''VM '' @ dvmid @ '' is not a template''))])
                    ''template_operation'',
           [ConfigGet dnode dvmid])"
    and "filter is_mutation (snd (delete_template dapi dnode dvmid)) = []"
    by (simp_all add: delete_template_def remote_def not_a_template_def Let_def is_mutation_def)
qed

text \<open>
  On the three-node cluster VM 100 is running and its configuration carries no \<open>template\<close>
  member, and VM 101 is stopped: \<open>create_template\<close> is refused for VM 100, and
  \<open>update_template\<close> and \<open>delete_template\<close> are refused for VM 101, each after its one read.
\<close>

theorem template_preconditions_witness:
  "qemu_status_current_get demo_cluster ''pve1'' ''100'' = Inr [(''status'', JStr ''running'')]
   \<and> dict_get [(''status'', JStr ''running'')] ''status'' \<noteq> JStr ''stopped''
   \<and> qemu_status_current_get demo_cluster ''pve3'' ''101'' = Inr [(''status'', JStr ''stopped'')]
   \<and> qemu_config_get demo_cluster ''pve3'' ''101'' = Inr [(''cores'', JInt 1), (''ide2'', JStr ''none'')]
   \<and> \<not> py_eq_int (dict_get [(''cores'', JInt 1), (''ide2'', JStr ''none'')] ''template'') 1
   \<and> create_template demo_cluster plain_repr ''pve1'' ''100'' (Some ''golden'') None =
     (Response (JObj [(''success'', JBool False),
                      (''message'', JStr ''VM 100 must be stopped before converting to template. Current status: running'')])
               ''template_operation'',
      [StatusCurrentGet ''pve1'' ''100''])
   \<and> update_template demo_cluster ''pve3'' ''101'' (Some ''golden'') None (Some 4) None =
     (Response (JObj [(''success'', JBool False), (''message'', JStr ''VM 101 is not a template'')])
               ''template_operation'',
      [ConfigGet ''pve3'' ''101''])
   \<and> delete_template demo_cluster ''pve3'' ''101'' =
     (Response (JObj [(''success'', JBool False), (''message'', JStr ''VM 101 is not a template'')])
               ''template_operation'',
      [ConfigGet ''pve3'' ''101''])"
proof -
  have h1: "qemu_status_current_get demo_cluster ''pve1'' ''100'' = Inr [(''status'', JStr ''running'')]"
    by (simp add: demo_cluster_def)
  have h2: "dict_get [(''status'', JStr ''running'')] ''status'' \<noteq> JStr ''stopped''"
    by (simp add: dict_get_def)
  have h3: "qemu_config_get demo_cluster ''pve3'' ''101'' = Inr [(''cores'', JInt 1), (''ide2'', JStr ''none'')]"
    by (simp add: demo_cluster_def)
  have h4: "\<not> py_eq_int (dict_get [(''cores'', JInt 1), (''ide2'', JStr ''none'')] ''template'') 1"
    by (simp add: dict_get_def)
  have h5: "qemu_status_current_get demo_cluster ''pve3'' ''101'' = Inr [(''status'', JStr ''stopped'')]"
    by (simp add: demo_cluster_def)
  note t = template_preconditions
    [of demo_cluster "''pve1''" "''100''" "[(''status'', JStr ''running'')]" plain_repr "Some ''golden''" None
        demo_cluster "''pve3''" "''101''" "[(''cores'', JInt 1), (''ide2'', JStr ''none'')]"
        "Some ''golden''" None "Some 4" None
        demo_cluster "''pve3''" "''101''" "[(''cores'', JInt 1), (''ide2'', JStr ''none'')]"]
  from t have c: "create_template demo_cluster plain_repr ''pve1'' ''100'' (Some ''golden'') None =
     (Response (JObj [(''success'', JBool False),
                      (''message'', JStr (''VM '' @ ''100'' @ '' must be stopped before converting to template. Current status: ''
                                           @ py_str plain_repr (dict_get [(''status'', JStr ''running'')] ''status'')))])
               ''template_operation'',
      [StatusCurrentGet ''pve1'' ''100''])"
    using h1 h2 by (simp only: simp_thms)
  from t have u: "update_template demo_cluster ''pve3'' ''101'' (Some ''golden'') None (Some 4) None =
     (Response (JObj [(''success'', JBool False), (''message'', JStr (''VM '' @ ''101'' @ '' is not a template''))])
               ''template_operation'',
      [ConfigGet ''pve3'' ''101''])"
    using h3 h4 by (simp only: simp_thms)
  from t have d: "delete_template demo_cluster ''pve3'' ''101'' =
     (Response (JObj [(''success'', JBool False), (''message'', JStr (''VM '' @ ''101'' @ '' is not a template''))])
               ''template_operation'',
      [ConfigGet ''pve3'' ''101''])"
    using h3 h4 by (simp only: simp_thms)
  from c have c': "create_template demo_cluster plain_repr ''pve1'' ''100'' (Some ''golden'') None =
     (Response (JObj [(''success'', JBool False),
                      (''message'', JStr ''VM 100 must be stopped before converting to template. Current status: running'')])
               ''template_operation'',
      [StatusCurrentGet ''pve1'' ''100''])"
    by (simp add: dict_get_def)
  from u have u': "update_template demo_cluster ''pve3'' ''101'' (Some ''golden'') None (Some 4) None =
     (Response (JObj [(''success'', JBool False), (''message'', JStr ''VM 101 is not a template'')])
               ''template_operation'',
      [ConfigGet ''pve3'' ''101''])"
    by simp
  from d have d': "delete_template demo_cluster ''pve3'' ''101'' =
     (Response (JObj [(''success'', JBool False), (''message'', JStr ''VM 101 is not a template'')])
               ''template_operation'',
      [ConfigGet ''pve3'' ''101''])"
    by simp
  from h1 h2 h5 h3 h4 c' u' d' show ?thesis by (intro conjI)
qed

lemma collect_tasks_take:
  "int (length tasks) < limit \<Longrightarrow>
   collect_tasks limit n ts tasks = take (nat limit) (tasks @ map (task_record n) ts)"
proof (induction ts arbitrary: tasks)
  case Nil
  then show ?case by simp
next
  case (Cons t ts)
  show ?case
  proof (cases "int (length (tasks @ [task_record n t])) \<ge> limit")
    case True
    with Cons.prems have "nat limit = Suc (length tasks)" by simp
    with True show ?thesis by (simp add: Let_def)
  next
    case False
    then have "int (length (tasks @ [task_record n t])) < limit" by simp
    from Cons.IH [OF this] False show ?thesis by (simp add: Let_def)
  qed
qed

lemma tasks_from_nodes_take:
  assumes "int (length tasks) < limit"
    and "tasks_from_nodes api limit params nodes tasks = (r, queried)"
  shows "(\<forall>ts. r = Inr ts \<longrightarrow> ts = take (nat limit) (tasks @ available api params queried))
       \<and> prefix queried nodes
       \<and> (\<forall>qs q. queried = qs @ [q] \<longrightarrow> int (length (tasks @ available api params qs)) < limit)"
  using assms
proof (induction nodes arbitrary: tasks queried)
  case Nil
  then show ?case by (auto simp: available_def)
next
  case (Cons n nodes)
  show ?case
  proof (cases "node_tasks_get api n params")
    case (Inl e)
    with Cons.prems(2) have "r = Inl e" "queried = [n]" by simp_all
    with Cons.prems(1) show ?thesis by (simp add: available_def)
  next
    case (Inr node_tasks)
    note reply = this
    let ?t = "collect_tasks limit n node_tasks tasks"
    have t: "?t = take (nat limit) (tasks @ map (task_record n) node_tasks)"
      using Cons.prems(1) by (rule collect_tasks_take)
    have av: "\<And>xs. available api params (n # xs) = map (task_record n) node_tasks @ available api params xs"
      using reply by (simp add: available_def)
    show ?thesis
    proof (cases "int (length ?t) \<ge> limit")
      case True
      with Cons.prems(2) reply have "r = Inr ?t" "queried = [n]" by (simp_all add: Let_def)
      with t av Cons.prems(1) show ?thesis by (simp add: available_def)
    next
      case False
      then have short: "int (length ?t) < limit" by simp
      have whole: "?t = tasks @ map (task_record n) node_tasks"
      proof -
        from short have "length (tasks @ map (task_record n) node_tasks) \<le> nat limit"
          unfolding t by simp
        then show ?thesis unfolding t by simp
      qed
      from Cons.prems(2) reply False obtain q' where
        rec: "tasks_from_nodes api limit params nodes ?t = (r, q')" and q: "queried = n # q'"
        by (auto simp: Let_def split: prod.splits)
      from Cons.IH [OF short rec] have
        ih1: "\<forall>ts. r = Inr ts \<longrightarrow> ts = take (nat limit) (?t @ available api params q')" and
        ih2: "prefix q' nodes" and
        ih3: "\<forall>qs x. q' = qs @ [x] \<longrightarrow> int (length (?t @ available api params qs)) < limit"
        by blast+
      have "\<forall>ts. r = Inr ts \<longrightarrow> ts = take (nat limit) (tasks @ available api params queried)"
        using ih1 whole q av by simp
      moreover have "prefix queried (n # nodes)" using ih2 q by simp
      moreover have "\<forall>qs x. queried = qs @ [x] \<longrightarrow> int (length (tasks @ available api params qs)) < limit"
      proof (intro allI impI)
        fix qs x assume eq: "queried = qs @ [x]"
        show "int (length (tasks @ available api params qs)) < limit"
        proof (cases qs)
          case Nil
          then show ?thesis using Cons.prems(1) by (simp add: available_def)
        next
          case (Cons a qs')
          with eq q have "a = n" "q' = qs' @ [x]" by simp_all
          with ih3 have "int (length (?t @ available api params qs')) < limit" by blast
          with whole av Cons \<open>a = n\<close> show ?thesis by simp
        qed
      qed
      ultimately show ?thesis by blast
    qed
  qed
qed

text \<open>
  C9. For every limit of at least 1, every node and VM filter and every remote task list,
  the list \<open>get_tasks\<close> returns has at most \<open>limit\<close> entries. More precisely, a response
  carries the first \<open>limit\<close> task records of the nodes that were queried, in order, and a
  node was queried only while fewer than \<open>limit\<close> records had been collected from the
  nodes before it: collection stops inside a node's list and across nodes as soon as
  \<open>limit\<close> entries are held.
\<close>

theorem get_tasks_at_most_limit:
  assumes "1 \<le> limit"
  shows "int (length (listed (fst (get_tasks api limit vmid node)))) \<le> limit
       \<and> (\<forall>d k. fst (get_tasks api limit vmid node) = Response d k \<longrightarrow>
            d = JList (map JObj (take (nat limit)
                  (available api (task_params limit vmid) (snd (get_tasks api limit vmid node))))))
       \<and> (\<forall>qs q. snd (get_tasks api limit vmid node) = qs @ [q] \<longrightarrow>
            int (length (available api (task_params limit vmid) qs)) < limit)"
proof (cases "if opt_truthy node then Inr [the node] else nodes_get api")
  case (Inl e)
  then have "get_tasks api limit vmid node = (Failed ''get tasks'' e, [])"
    by (simp add: get_tasks_def)
  with assms show ?thesis by (simp add: listed_def)
next
  case (Inr nodes)
  obtain r queried where run: "tasks_from_nodes api limit (task_params limit vmid) nodes [] = (r, queried)"
    by (cases "tasks_from_nodes api limit (task_params limit vmid) nodes []")
  from assms have "int (length ([]::dict list)) < limit" by simp
  from tasks_from_nodes_take [OF this run] have
    taken: "\<forall>ts. r = Inr ts \<longrightarrow> ts = take (nat limit) (available api (task_params limit vmid) queried)" and
    stops: "\<forall>qs q. queried = qs @ [q] \<longrightarrow> int (length (available api (task_params limit vmid) qs)) < limit"
    by simp_all
  show ?thesis
  proof (cases r)
    case (Inl e)
    with Inr run have "get_tasks api limit vmid node = (Failed ''get tasks'' e, queried)"
      by (simp add: get_tasks_def)
    with stops assms show ?thesis by (simp add: listed_def)
  next
    case (Inr ts)
    with \<open>(if opt_truthy node then Inr [the node] else nodes_get api) = Inr nodes\<close> run
    have "get_tasks api limit vmid node = (Response (JList (map JObj ts)) ''tasks'', queried)"
      by (simp add: get_tasks_def)
    with taken stops Inr assms show ?thesis by (simp add: listed_def)
  qed
qed

theorem get_tasks_at_most_limit_witness:
  "(1::int) \<le> 2
   \<and> get_tasks demo_cluster 2 None None =
       (Response (JList [JObj (task_record ''pve1'' [(''upid'', JStr ''U1''), (''type'', JStr ''qmstart'')]),
                         JObj (task_record ''pve1'' [(''upid'', JStr ''U2''), (''type'', JStr ''vzdump'')])])
                 ''tasks'', [''pve1''])
   \<and> int (length (listed (fst (get_tasks demo_cluster 2 None None)))) \<le> 2"
proof -
  have h: "(1::int) \<le> 2" by simp
  have run: "get_tasks demo_cluster 2 None None =
       (Response (JList [JObj (task_record ''pve1'' [(''upid'', JStr ''U1''), (''type'', JStr ''qmstart'')]),
                         JObj (task_record ''pve1'' [(''upid'', JStr ''U2''), (''type'', JStr ''vzdump'')])])
                 ''tasks'', [''pve1''])"
    by (simp add: get_tasks_def demo_cluster_def task_params_def Let_def)
  from get_tasks_at_most_limit [OF h, of demo_cluster None None]
  have "int (length (listed (fst (get_tasks demo_cluster 2 None None)))) \<le> 2"
    by (rule conjunct1)
  with h run show ?thesis by simp
qed


section \<open>Properties of the cluster-wide list operations\<close>

lemma foldl_append_map: "foldl (\<lambda>acc x. acc @ [f x]) acc xs = acc @ map f xs"
  by (induction xs arbitrary: acc) simp_all

lemma foldl_append_filter_map:
  "foldl (\<lambda>acc x. if p x then acc @ [f x] else acc) acc xs = acc @ map f (filter p xs)"
  by (induction xs arbitrary: acc) simp_all

lemma containers_from_nodes_eq:
  "containers_from_nodes api nodes containers logged =
     (containers @ concat (map (container_contribution api) (succeeded (node_lxc_get api) nodes)),
      logged @ map (\<lambda>n. container_warning n (projl (node_lxc_get api n))) (failing (node_lxc_get api) nodes))"
proof (induction nodes arbitrary: containers logged)
  case Nil
  then show ?case by (simp add: succeeded_def failing_def)
next
  case (Cons n nodes)
  show ?case
  proof (cases "node_lxc_get api n")
    case (Inl e)
    with Cons.IH show ?thesis by (simp add: succeeded_def failing_def)
  next
    case (Inr node_containers)
    with Cons.IH show ?thesis
      by (simp add: succeeded_def failing_def foldl_append_map container_contribution_def)
  qed
qed

lemma enrich_templates_eq:
  "enrich_templates api rp n ts =
     (map (\<lambda>t. fst (enrich_template api rp n t)) ts,
      concat (map (\<lambda>t. snd (enrich_template api rp n t)) ts))"
  by (induction ts) (simp_all split: prod.splits)

lemma templates_from_nodes_eq:
  "templates_from_nodes api rp nodes templates logged =
     (templates @ concat (map (template_contribution api rp) (succeeded (node_qemu_get api) nodes)),
      logged @ concat (map (template_log api rp) nodes))"
proof (induction nodes arbitrary: templates logged)
  case Nil
  then show ?case by (simp add: succeeded_def)
next
  case (Cons n nodes)
  show ?case
  proof (cases "node_qemu_get api n")
    case (Inl e)
    with Cons.IH show ?thesis by (simp add: succeeded_def template_log_def)
  next
    case (Inr node_vms)
    with Cons.IH show ?thesis
      by (simp add: succeeded_def template_log_def template_contribution_def enrich_templates_eq)
  qed
qed

lemma backups_from_nodes_eq:
  "backups_from_nodes api params nodes backups logged =
     (backups @ concat (map (backup_contribution api params)
                            (succeeded (\<lambda>n. node_storage_get api n params) nodes)),
      logged)"
proof (induction nodes arbitrary: backups logged)
  case Nil
  then show ?case by (simp add: succeeded_def)
next
  case (Cons n nodes)
  show ?case
  proof (cases "node_storage_get api n params")
    case (Inl e)
    with Cons.IH show ?thesis by (simp add: succeeded_def)
  next
    case (Inr node_backups)
    with Cons.IH show ?thesis
      by (simp add: succeeded_def foldl_append_filter_map backup_contribution_def)
  qed
qed

text \<open>
  C3 (as amended). Let the node list be read successfully. Then \<open>get_containers\<close>,
  \<open>get_templates\<close> and \<open>list_backups\<close> return their normal response although per-node
  calls raise on some nodes, and the list in it is exactly the concatenation, in
  cluster-list order, of the contributions of the nodes whose call returned.
  \<open>get_containers\<close> logs one warning for each failing node, \<open>get_templates\<close> logs one
  warning for each failing node (next to those for templates whose configuration could
  not be read), and \<open>list_backups\<close> logs nothing.
\<close>

theorem fan_out_skips_failing_nodes:
  assumes "nodes_get api = Inr nodes"
  shows "get_containers api =
           (Response (JList (map JObj (concat (map (container_contribution api)
                                                   (succeeded (node_lxc_get api) nodes)))))
                     ''container_list'',
            map (\<lambda>n. container_warning n (projl (node_lxc_get api n))) (failing (node_lxc_get api) nodes))
       \<and> get_templates api rp =
           (Response (JList (map JObj (concat (map (template_contribution api rp)
                                                   (succeeded (node_qemu_get api) nodes)))))
                     ''vm_templates'',
            concat (map (template_log api rp) nodes))
       \<and> list_backups api storage vmid =
           (Response (JList (map JObj (concat (map (backup_contribution api (backup_params storage vmid))
                                 (succeeded (\<lambda>n. node_storage_get api n (backup_params storage vmid)) nodes)))))
                     ''backups'',
            [])"
proof (intro conjI)
  show "get_containers api =
           (Response (JList (map JObj (concat (map (container_contribution api)
                                                   (succeeded (node_lxc_get api) nodes)))))
                     ''container_list'',
            map (\<lambda>n. container_warning n (projl (node_lxc_get api n))) (failing (node_lxc_get api) nodes))"
    using assms by (simp add: get_containers_def containers_from_nodes_eq)
  show "get_templates api rp =
           (Response (JList (map JObj (concat (map (template_contribution api rp)
                                                   (succeeded (node_qemu_get api) nodes)))))
                     ''vm_templates'',
            concat (map (template_log api rp) nodes))"
    using assms by (simp add: get_templates_def templates_from_nodes_eq)
  show "list_backups api storage vmid =
           (Response (JList (map JObj (concat (map (backup_contribution api (backup_params storage vmid))
                                 (succeeded (\<lambda>n. node_storage_get api n (backup_params storage vmid)) nodes)))))
                     ''backups'',
            [])"
    using assms by (simp add: list_backups_def backups_from_nodes_eq)
qed

theorem fan_out_skips_failing_nodes_witness:
  "nodes_get demo_cluster = Inr [''pve1'', ''pve2'', ''pve3'']
   \<and> isl (node_lxc_get demo_cluster ''pve2'')
   \<and> get_containers demo_cluster =
       (Response (JList [JObj [(''vmid'', JInt 200), (''name'', JStr ''web''), (''status'', JStr ''running''),
                               (''node'', JStr ''pve1'')],
                         JObj [(''vmid'', JInt 201), (''name'', JStr ''db''), (''status'', JStr ''stopped''),
                               (''node'', JStr ''pve3'')]])
                 ''container_list'',
        [''Failed to get containers for node pve2: timed out''])"
proof -
  have h: "nodes_get demo_cluster = Inr [''pve1'', ''pve2'', ''pve3'']"
    by (simp add: demo_cluster_def)
  have f: "isl (node_lxc_get demo_cluster ''pve2'')"
    by (simp add: demo_cluster_def)
  have s: "succeeded (node_lxc_get demo_cluster) [''pve1'', ''pve2'', ''pve3''] = [''pve1'', ''pve3'']"
    by (simp add: succeeded_def demo_cluster_def)
  have l: "failing (node_lxc_get demo_cluster) [''pve1'', ''pve2'', ''pve3''] = [''pve2'']"
    by (simp add: failing_def demo_cluster_def)
  have c1: "container_contribution demo_cluster ''pve1'' =
      [[(''vmid'', JInt 200), (''name'', JStr ''web''), (''status'', JStr ''running''), (''node'', JStr ''pve1'')]]"
    by (simp add: container_contribution_def demo_cluster_def set_item_def)
  have c3: "container_contribution demo_cluster ''pve3'' =
      [[(''vmid'', JInt 201), (''name'', JStr ''db''), (''status'', JStr ''stopped''), (''node'', JStr ''pve3'')]]"
    by (simp add: container_contribution_def demo_cluster_def set_item_def)
  have w: "container_warning ''pve2'' (projl (node_lxc_get demo_cluster ''pve2'')) =
      ''Failed to get containers for node pve2: timed out''"
    by (simp add: container_warning_def demo_cluster_def)
  from fan_out_skips_failing_nodes [OF h, of plain_repr None None]
  have "get_containers demo_cluster =
           (Response (JList (map JObj (concat (map (container_contribution demo_cluster)
                                 (succeeded (node_lxc_get demo_cluster) [''pve1'', ''pve2'', ''pve3''])))))
                     ''container_list'',
            map (\<lambda>n. container_warning n (projl (node_lxc_get demo_cluster n)))
                (failing (node_lxc_get demo_cluster) [''pve1'', ''pve2'', ''pve3'']))"
    by (rule conjunct1)
  then have "get_containers demo_cluster =
       (Response (JList [JObj [(''vmid'', JInt 200), (''name'', JStr ''web''), (''status'', JStr ''running''),
                               (''node'', JStr ''pve1'')],
                         JObj [(''vmid'', JInt 201), (''name'', JStr ''db''), (''status'', JStr ''stopped''),
                               (''node'', JStr ''pve3'')]])
                 ''container_list'',
        [''Failed to get containers for node pve2: timed out''])"
    unfolding s l by (simp only: list.map concat.simps append.simps c1 c3 w)
  with h f show ?thesis by (intro conjI)
qed

text \<open>
  The claim as written has every failing node's contribution logged. On the three-node
  cluster, where the storage call of \<open>pve2\<close> raises, \<open>list_backups\<close> returns the backups
  of \<open>pve1\<close> and \<open>pve3\<close> and its log stays empty.
\<close>

theorem list_backups_logs_nothing:
  "nodes_get demo_cluster = Inr [''pve1'', ''pve2'', ''pve3'']
   \<and> node_storage_get demo_cluster ''pve2'' (backup_params None None) = Inl ''timed out''
   \<and> list_backups demo_cluster None None =
       (Response (JList [JObj (backup_record ''pve1'' [(''volid'', JStr ''local:backup/a.vma''),
                                                      (''content'', JStr ''backup''), (''vmid'', JInt 100),
                                                      (''size'', JInt 1024)]),
                         JObj (backup_record ''pve3'' [(''volid'', JStr ''local:backup/c.vma''),
                                                      (''content'', JStr ''backup''), (''vmid'', JInt 101)])])
                 ''backups'',
        [])"
  by (simp add: demo_cluster_def list_backups_def backup_params_def is_backup_def dict_get_def)

section \<open>The API script's list operations behind the dispatcher\<close>

text \<open>
  \<open>get_vms\<close> and \<open>get_templates\<close> of the API script skip a failing node as well, but they
  print one error document for it on the standard output, ahead of the result that
  \<open>main\<close> prints. The documents printed are exactly those of the failing nodes, in
  cluster-list order.
\<close>

lemma api_templates_from_nodes_eq:
  "api_templates_from_nodes api nodes templates printed =
     (templates @ concat (map (api_template_contribution api) (succeeded (node_qemu_get api) nodes)),
      printed @ map (\<lambda>n. templates_error_doc n (projl (node_qemu_get api n))) (failing (node_qemu_get api) nodes))"
proof (induction nodes arbitrary: templates printed)
  case Nil
  then show ?case by (simp add: succeeded_def failing_def)
next
  case (Cons n nodes)
  show ?case
  proof (cases "node_qemu_get api n")
    case (Inl e)
    with Cons.IH show ?thesis by (simp add: succeeded_def failing_def)
  next
    case (Inr node_vms)
    with Cons.IH show ?thesis
      by (simp add: succeeded_def failing_def api_template_contribution_def)
  qed
qed

lemma vms_from_nodes_printed:
  "snd (snd (vms_from_nodes api nodes vms by_node printed)) =
     printed @ map (\<lambda>n. vms_error_doc n (projl (node_qemu_get api n))) (failing (node_qemu_get api) nodes)"
proof (induction nodes arbitrary: vms by_node printed)
  case Nil
  then show ?case by (simp add: failing_def)
next
  case (Cons n nodes)
  show ?case
  proof (cases "node_qemu_get api n")
    case (Inl e)
    with Cons.IH [of vms by_node "printed @ [vms_error_doc n e]"] show ?thesis
      by (simp add: failing_def)
  next
    case (Inr node_vms)
    with Cons.IH [of "vms @ node_vms" "AList.update n node_vms by_node" printed] show ?thesis
      by (simp add: failing_def)
  qed
qed

lemma get_vms_printed:
  assumes "nodes_get api = Inr nodes"
  shows "snd (get_vms api) =
           map (\<lambda>n. vms_error_doc n (projl (node_qemu_get api n))) (failing (node_qemu_get api) nodes)"
proof -
  obtain vms by_node printed where run: "vms_from_nodes api nodes [] [] [] = (vms, by_node, printed)"
    by (cases "vms_from_nodes api nodes [] [] []") auto
  from vms_from_nodes_printed [of api nodes "[]" "[]" "[]"] run
  have printed: "printed = map (\<lambda>n. vms_error_doc n (projl (node_qemu_get api n))) (failing (node_qemu_get api) nodes)"
    by simp
  from assms run have "snd (get_vms api) = printed"
    by (simp add: get_vms_def split: sum.splits)
  with printed show ?thesis by simp
qed

lemma api_get_templates_printed:
  assumes "nodes_get api = Inr nodes"
  shows "snd (api_get_templates api) =
           map (\<lambda>n. templates_error_doc n (projl (node_qemu_get api n))) (failing (node_qemu_get api) nodes)"
  using assms by (simp add: api_get_templates_def api_templates_from_nodes_eq)

text \<open>
  The server decodes the script's whole output as one document. As soon as one node
  fails, the output holds more than one document, and what the dispatcher's caller
  receives for \<open>get_vms\<close> and \<open>get_templates\<close> is the envelope of the decoding error, not
  the list of the nodes that answered.
\<close>

lemma decoded_output_many:
  "printed \<noteq> [] \<Longrightarrow>
   decoded_output decode_error (script_output (result, printed)) =
     error_envelope (''Failed to parse JSON output: '' @ decode_error (script_output (result, printed)))"
  by (cases printed) (simp_all add: decoded_output_def script_output_def split: list.splits)

lemma failing_node_breaks_decoding:
  assumes "nodes_get api = Inr nodes"
    and "failing (node_qemu_get api) nodes \<noteq> []"
  shows "decoded_output decode_error (script_output (get_vms api)) =
           error_envelope (''Failed to parse JSON output: '' @ decode_error (script_output (get_vms api)))"
    and "decoded_output decode_error (script_output (api_get_templates api)) =
           error_envelope (''Failed to parse JSON output: ''
                           @ decode_error (script_output (api_get_templates api)))"
proof -
  from assms have "snd (get_vms api) \<noteq> []"
    by (simp add: get_vms_printed)
  from decoded_output_many [OF this, of decode_error "fst (get_vms api)"]
  show "decoded_output decode_error (script_output (get_vms api)) =
           error_envelope (''Failed to parse JSON output: '' @ decode_error (script_output (get_vms api)))"
    by simp
  from assms have "snd (api_get_templates api) \<noteq> []"
    by (simp add: api_get_templates_printed)
  from decoded_output_many [OF this, of decode_error "fst (api_get_templates api)"]
  show "decoded_output decode_error (script_output (api_get_templates api)) =
           error_envelope (''Failed to parse JSON output: ''
                           @ decode_error (script_output (api_get_templates api)))"
    by simp
qed

lemma demo_cluster_get_vms_not_decoded:
  "decoded_output (\<lambda>documents. ''Extra data'') (script_output (get_vms demo_cluster)) =
     JObj [(''error'', JStr ''Failed to parse JSON output: Extra data'')]"
proof -
  have h: "nodes_get demo_cluster = Inr [''pve1'', ''pve2'', ''pve3'']"
    by (simp add: demo_cluster_def)
  have f: "failing (node_qemu_get demo_cluster) [''pve1'', ''pve2'', ''pve3''] \<noteq> []"
    by (simp add: failing_def demo_cluster_def)
  from failing_node_breaks_decoding(1) [OF h f, of "\<lambda>documents. ''Extra data''"]
  show ?thesis by (simp add: error_envelope_def)
qed


section \<open>Properties of the renderer and of the key buckets\<close>

lemma render_blocks_ok:
  "\<forall>r \<in> set rs. \<not> isl (block r) \<Longrightarrow>
   render_blocks block rs acc = Inr (acc @ concat (map (\<lambda>r. projr (block r)) rs))"
proof (induction rs arbitrary: acc)
  case Nil
  then show ?case by simp
next
  case (Cons r rs)
  from Cons.prems have "\<not> isl (block r)" by simp
  then obtain ls where ls: "block r = Inr ls" by (cases "block r") simp_all
  from Cons.prems have "\<forall>r \<in> set rs. \<not> isl (block r)" by simp
  from Cons.IH [OF this] ls show ?case by simp
qed

lemma attempt_InrE:
  assumes "attempt r f = Inr y"
  obtains v where "r = Inr v" and "f v = Inr y"
  using assms by (cases r) (simp_all add: attempt_def)

lemma bullet_not_empty: "bullet @ s \<noteq> []"
  by (simp add: bullet_def)

lemma container_block_shape:
  assumes "container_block env c = Inr ls"
  shows "\<exists>lines. ls = [] # lines \<and> length lines = 5 \<and> [] \<notin> set lines"
  using assms unfolding container_block_def Let_def
  by (elim attempt_InrE) (clarsimp simp: bullet_not_empty)

lemma template_block_shape:
  assumes "template_block env t = Inr ls"
  shows "\<exists>lines. ls = [] # lines \<and> length lines = 4 \<and> [] \<notin> set lines"
  using assms unfolding template_block_def Let_def
  by (elim attempt_InrE) (clarsimp simp: bullet_not_empty)

lemma config_lines_eq:
  "config_lines env p config acc =
     acc @ map (config_line env) (filter (\<lambda>item. p (fst item)) config)"
  by (induction config arbitrary: acc) (auto simp: config_line_def)

lemma update_fresh: "k \<notin> fst ` set al \<Longrightarrow> AList.update k v al = al @ [(k, v)]"
  by (induction al) auto

lemma collect_keys_eq:
  "distinct (map fst config) \<Longrightarrow> fst ` set acc \<inter> fst ` set config = {} \<Longrightarrow>
   collect_keys p config acc = acc @ filter (\<lambda>item. p (fst item)) config"
proof (induction config arbitrary: acc)
  case Nil
  then show ?case by simp
next
  case (Cons item config)
  obtain k v where item: "item = (k, v)" by (cases item)
  from Cons.prems item have fresh: "k \<notin> fst ` set acc" and d: "distinct (map fst config)"
    and notin: "k \<notin> fst ` set config" and disj: "fst ` set acc \<inter> fst ` set config = {}"
    by auto
  show ?case
  proof (cases "p k")
    case True
    from disj notin have "fst ` set (acc @ [(k, v)]) \<inter> fst ` set config = {}" by auto
    from Cons.IH [OF d this] True item fresh show ?thesis
      by (simp add: set_item_def update_fresh)
  next
    case False
    from Cons.IH [OF d disj] False item show ?thesis by simp
  qed
qed

text \<open>
  C8 (as amended). For the empty list of containers, and likewise for the empty list of
  container templates, the renderer returns exactly the sentinel line of that kind and
  nothing else. For every non-empty list whose records can each be rendered (a container
  needs \<open>name\<close>, \<open>vmid\<close>, \<open>status\<close> and \<open>node\<close>), it returns the heading followed by one
  block per record, each block preceded by exactly one empty line, joined by newlines.
\<close>

theorem list_templates_sentinel_or_blocks:
  "container_list env [] = Inr (resource_icon env ''container'' @ '' No containers found'')
   \<and> container_templates env [] = Inr (resource_icon env ''template'' @ '' No container templates found'')
   \<and> (containers \<noteq> [] \<and> (\<forall>c \<in> set containers. \<not> isl (container_block env c)) \<longrightarrow>
        container_list env containers =
          Inr (join newline ((resource_icon env ''container'' @ '' Containers'')
                             # concat (map (\<lambda>c. projr (container_block env c)) containers)))
        \<and> (\<forall>c \<in> set containers. \<exists>lines. projr (container_block env c) = [] # lines
               \<and> length lines = 5 \<and> [] \<notin> set lines))
   \<and> (templates \<noteq> [] \<and> (\<forall>t \<in> set templates. \<not> isl (template_block env t)) \<longrightarrow>
        container_templates env templates =
          Inr (join newline ((resource_icon env ''template'' @ '' Container Templates'')
                             # concat (map (\<lambda>t. projr (template_block env t)) templates)))
        \<and> (\<forall>t \<in> set templates. \<exists>lines. projr (template_block env t) = [] # lines
               \<and> length lines = 4 \<and> [] \<notin> set lines))"
proof (intro conjI impI)
  show "container_list env [] = Inr (resource_icon env ''container'' @ '' No containers found'')"
    by (simp add: container_list_def)
  show "container_templates env [] = Inr (resource_icon env ''template'' @ '' No container templates found'')"
    by (simp add: container_templates_def)
next
  assume h: "containers \<noteq> [] \<and> (\<forall>c \<in> set containers. \<not> isl (container_block env c))"
  then have ok: "\<forall>c \<in> set containers. \<not> isl (container_block env c)" by (rule conjunct2)
  from h render_blocks_ok [OF ok]
  show "container_list env containers =
          Inr (join newline ((resource_icon env ''container'' @ '' Containers'')
                             # concat (map (\<lambda>c. projr (container_block env c)) containers)))"
    by (simp add: container_list_def attempt_def)
  show "\<forall>c \<in> set containers. \<exists>lines. projr (container_block env c) = [] # lines
               \<and> length lines = 5 \<and> [] \<notin> set lines"
  proof
    fix c assume "c \<in> set containers"
    with ok have "\<not> isl (container_block env c)" by simp
    then obtain ls where ls: "container_block env c = Inr ls"
      by (cases "container_block env c") simp_all
    from container_block_shape [OF ls] ls
    show "\<exists>lines. projr (container_block env c) = [] # lines \<and> length lines = 5 \<and> [] \<notin> set lines"
      by simp
  qed
next
  assume h: "templates \<noteq> [] \<and> (\<forall>t \<in> set templates. \<not> isl (template_block env t))"
  then have ok: "\<forall>t \<in> set templates. \<not> isl (template_block env t)" by (rule conjunct2)
  from h render_blocks_ok [OF ok]
  show "container_templates env templates =
          Inr (join newline ((resource_icon env ''template'' @ '' Container Templates'')
                             # concat (map (\<lambda>t. projr (template_block env t)) templates)))"
    by (simp add: container_templates_def attempt_def)
  show "\<forall>t \<in> set templates. \<exists>lines. projr (template_block env t) = [] # lines
               \<and> length lines = 4 \<and> [] \<notin> set lines"
  proof
    fix t assume "t \<in> set templates"
    with ok have "\<not> isl (template_block env t)" by simp
    then obtain ls where ls: "template_block env t = Inr ls"
      by (cases "template_block env t") simp_all
    from template_block_shape [OF ls] ls
    show "\<exists>lines. projr (template_block env t) = [] # lines \<and> length lines = 4 \<and> [] \<notin> set lines"
      by simp
  qed
qed

theorem list_templates_sentinel_or_blocks_witness:
  "container_block demo_env [(''vmid'', JInt 200), (''name'', JStr ''web''), (''status'', JStr ''running''),
                            (''node'', JStr ''pve1'')]
     = Inr [[], ''# web (ID: 200)'', bullet @ ''Status: RUNNING'', bullet @ ''Node: pve1'',
            bullet @ ''CPU Cores: N/A'', bullet @ ''Memory: 0 B / 0 B (0.0%)'']
   \<and> container_list demo_env [[(''vmid'', JInt 200), (''name'', JStr ''web''), (''status'', JStr ''running''),
                               (''node'', JStr ''pve1'')]]
     = Inr (join newline [''# Containers'', [], ''# web (ID: 200)'', bullet @ ''Status: RUNNING'',
                          bullet @ ''Node: pve1'', bullet @ ''CPU Cores: N/A'',
                          bullet @ ''Memory: 0 B / 0 B (0.0%)''])
   \<and> container_list demo_env [] = Inr ''# No containers found''"
proof -
  let ?c = "[(''vmid'', JInt 200), (''name'', JStr ''web''), (''status'', JStr ''running''),
             (''node'', JStr ''pve1'')]"
  have dec200: "dec 200 = ''200''" by (simp add: digit_def)
  have dec0: "dec 0 = ''0''" by (simp add: digit_def)
  have icon: "resource_icon demo_env ''container'' = ''#''" by (simp add: demo_env_def)
  have b: "container_block demo_env ?c
     = Inr [[], ''# web (ID: 200)'', bullet @ ''Status: RUNNING'', bullet @ ''Node: pve1'',
            bullet @ ''CPU Cores: N/A'', bullet @ ''Memory: 0 B / 0 B (0.0%)'']"
    by (simp add: container_block_def attempt_def Let_def dict_get_default_def py_get_def
          percent_text_def py_positive_def index_def py_upper_def demo_env_def show_value_def
          str_int_def dec200 dec0 del: dec.simps)
  then have ok: "[?c] \<noteq> [] \<and> (\<forall>c \<in> set [?c]. \<not> isl (container_block demo_env c))"
    by simp
  from list_templates_sentinel_or_blocks [of demo_env "[?c]" "[]"]
  have "[?c] \<noteq> [] \<and> (\<forall>c \<in> set [?c]. \<not> isl (container_block demo_env c)) \<longrightarrow>
        container_list demo_env [?c] =
          Inr (join newline ((resource_icon demo_env ''container'' @ '' Containers'')
                             # concat (map (\<lambda>c. projr (container_block demo_env c)) [?c])))
        \<and> (\<forall>c \<in> set [?c]. \<exists>lines. projr (container_block demo_env c) = [] # lines
               \<and> length lines = 5 \<and> [] \<notin> set lines)"
    and s: "container_list demo_env [] = Inr (resource_icon demo_env ''container'' @ '' No containers found'')"
    by blast+
  with ok have "container_list demo_env [?c] =
          Inr (join newline ((resource_icon demo_env ''container'' @ '' Containers'')
                             # concat (map (\<lambda>c. projr (container_block demo_env c)) [?c])))"
    by blast
  then have l: "container_list demo_env [?c]
     = Inr (join newline [''# Containers'', [], ''# web (ID: 200)'', bullet @ ''Status: RUNNING'',
                          bullet @ ''Node: pve1'', bullet @ ''CPU Cores: N/A'',
                          bullet @ ''Memory: 0 B / 0 B (0.0%)''])"
    by (simp add: b icon)
  from s have "container_list demo_env [] = Inr ''# No containers found''"
    by (simp add: icon)
  with b l show ?thesis by (intro conjI)
qed

text \<open>
  The claim as written covers every non-empty list. A record without \<open>name\<close> makes the
  renderer raise \<open>KeyError\<close> instead of returning joined blocks.
\<close>

theorem container_list_raises_without_name:
  "container_list demo_env [[(''vmid'', JInt 200), (''status'', JStr ''running''), (''node'', JStr ''pve1'')]]
     = Inl (key_error ''name'')"
  by (simp add: container_list_def container_block_def attempt_def Let_def dict_get_default_def
        py_get_def percent_text_def py_positive_def index_def)


section \<open>Properties of the float arithmetic\<close>

text \<open>Powers of two, bit lengths and the binary exponent.\<close>

lemma pow2_powi: "pow2 e = 2 powi e"
  by (simp add: pow2_def power_int_def field_simps)

lemma pow2_pos: "0 < pow2 e"
  by (simp add: pow2_powi)

lemma pow2_add: "pow2 (a + b) = pow2 a * pow2 b"
  by (simp add: pow2_powi power_int_add)

lemma pow2_mono: "a \<le> b \<Longrightarrow> pow2 a \<le> pow2 b"
  by (simp add: pow2_powi power_int_increasing)

lemma pow2_less_cancel: "pow2 a < pow2 b \<Longrightarrow> a < b"
  using pow2_mono [of b a] by (cases "a < b") auto

lemma pow2_nat: "pow2 (int k) = 2 ^ k"
  by (simp add: pow2_def)

lemma bit_length_bounds:
  "0 < n \<Longrightarrow> 2 ^ (bit_length n - 1) \<le> n \<and> n < 2 ^ bit_length n"
proof (induction n rule: bit_length.induct)
  case (1 n)
  show ?case
  proof (cases "n div 2 = 0")
    case True
    with 1 have "n = 1" by (simp add: div_eq_0_iff) 
    then show ?thesis by (simp add: bit_length.simps)
  next
    case False
    with 1 have ih: "2 ^ (bit_length (n div 2) - 1) \<le> n div 2" "n div 2 < 2 ^ bit_length (n div 2)"
      by simp_all
    from False have pos: "0 < bit_length (n div 2)" by (simp add: bit_length.simps)
    have bl: "bit_length n = Suc (bit_length (n div 2))" using 1 by (simp add: bit_length.simps)
    from ih(1) have "2 * 2 ^ (bit_length (n div 2) - 1) \<le> n" by simp
    moreover from pos have "2 * (2::nat) ^ (bit_length (n div 2) - 1) = 2 ^ bit_length (n div 2)"
      by (cases "bit_length (n div 2)") simp_all
    ultimately have lo: "2 ^ bit_length (n div 2) \<le> n" by simp
    from ih(2) have hi: "n < 2 * 2 ^ bit_length (n div 2)" by simp
    from lo hi bl show ?thesis by simp
  qed
qed

lemma round_half_even_error: "\<bar>of_int (round_half_even x) - x\<bar> \<le> 1 / 2"
proof -
  have "of_int \<lfloor>x\<rfloor> \<le> x" "x < of_int \<lfloor>x\<rfloor> + 1" by linarith+
  then show ?thesis
    by (auto simp: round_half_even_def Let_def)
qed

lemma round_half_even_le: "x \<le> of_int N \<Longrightarrow> round_half_even x \<le> N"
proof -
  assume a: "x \<le> of_int N"
  have f: "\<lfloor>x\<rfloor> \<le> N" using a by (simp add: floor_le_iff) 
  show ?thesis
  proof (cases "\<lfloor>x\<rfloor> = N")
    case True
    then have "x - of_int \<lfloor>x\<rfloor> \<le> 0" using a by simp
    then show ?thesis using True by (simp add: round_half_even_def Let_def)
  next
    case False
    with f have "\<lfloor>x\<rfloor> + 1 \<le> N" by simp
    then show ?thesis by (auto simp: round_half_even_def Let_def)
  qed
qed

lemma round_half_even_nonneg: "0 \<le> x \<Longrightarrow> 0 \<le> round_half_even x"
  by (auto simp: round_half_even_def Let_def)

lemma pow2_sub: "pow2 (a - b) = pow2 a / pow2 b"
  by (simp add: pow2_powi power_int_diff)

lemma pow2_0: "pow2 0 = 1" by (simp add: pow2_def)

lemma exponent_bounds:
  assumes "0 < m"
  shows "pow2 (exponent m) \<le> m \<and> m < pow2 (exponent m + 1)"
proof -
  obtain a b where q: "quotient_of m = (a, b)" by (cases "quotient_of m")
  from quotient_of_denom_pos [OF q] have b: "0 < b" .
  from quotient_of_div [OF q] have m: "m = of_int a / of_int b" .
  from assms m b have a: "0 < a" by (simp add: zero_less_divide_iff)
  define la where "la = bit_length (nat a)"
  define lb where "lb = bit_length (nat b)"
  from bit_length_bounds [of "nat a"] a have al: "2 ^ (la - 1) \<le> nat a" and au: "nat a < 2 ^ la"
    by (simp_all add: la_def)
  from bit_length_bounds [of "nat b"] b have bl: "2 ^ (lb - 1) \<le> nat b" and bu: "nat b < 2 ^ lb"
    by (simp_all add: lb_def)
  have la_pos: "0 < la" using au a by (cases la) simp_all
  have lb_pos: "0 < lb" using bu b by (cases lb) simp_all
  have ra: "(of_nat (nat a) :: rat) = of_int a" using a by (simp only: of_nat_nat less_imp_le)
  have rb: "(of_nat (nat b) :: rat) = of_int b" using b by (simp only: of_nat_nat less_imp_le)
  have p2: "\<And>k. (of_nat (2 ^ k) :: rat) = pow2 (int k)"
    by (simp add: pow2_nat)
  have ila: "int la - 1 = int (la - 1)" using la_pos by linarith
  have ilb: "int lb - 1 = int (lb - 1)" using lb_pos by linarith
  have al': "pow2 (int la - 1) \<le> of_int a"
  proof -
    have "(of_nat (2 ^ (la - 1)) :: rat) \<le> of_nat (nat a)" using al by (rule of_nat_mono)
    then show ?thesis unfolding p2 ra ila .
  qed
  have au': "of_int a < pow2 (int la)"
  proof -
    have "(of_nat (nat a) :: rat) < of_nat (2 ^ la)" using au by (simp only: of_nat_less_iff)
    then show ?thesis unfolding p2 ra .
  qed
  have bl': "pow2 (int lb - 1) \<le> of_int b"
  proof -
    have "(of_nat (2 ^ (lb - 1)) :: rat) \<le> of_nat (nat b)" using bl by (rule of_nat_mono)
    then show ?thesis unfolding p2 rb ilb .
  qed
  have bu': "of_int b < pow2 (int lb)"
  proof -
    have "(of_nat (nat b) :: rat) < of_nat (2 ^ lb)" using bu by (simp only: of_nat_less_iff)
    then show ?thesis unfolding p2 rb .
  qed
  define e where "e = int la - int lb"
  have bpos: "(0::rat) < of_int b" using b by simp
  have apos: "(0::rat) < of_int a" using a by simp
  have lower: "pow2 (e - 1) \<le> m"
  proof -
    have "pow2 (e - 1) * of_int b \<le> pow2 (e - 1) * pow2 (int lb)"
      by (rule mult_left_mono) (use bu' pow2_pos [of "e - 1"] in simp_all)
    also have "\<dots> = pow2 (int la - 1)"
    proof -
      have "e - 1 + int lb = int la - 1" by (simp add: e_def)
      then have "pow2 (e - 1 + int lb) = pow2 (int la - 1)" by (rule arg_cong)
      then show ?thesis by (simp only: pow2_add)
    qed
    also have "\<dots> \<le> of_int a" by (rule al')
    finally show ?thesis unfolding m using bpos by (simp add: pos_le_divide_eq)
  qed
  have upper: "m < pow2 (e + 1)"
  proof -
    have "of_int a < pow2 (int la)" by (rule au')
    also have "\<dots> = pow2 (e + 1) * pow2 (int lb - 1)"
    proof -
      have "e + 1 + (int lb - 1) = int la" by (simp add: e_def)
      then have "pow2 (e + 1 + (int lb - 1)) = pow2 (int la)" by (rule arg_cong)
      then show ?thesis by (simp only: pow2_add)
    qed
    also have "\<dots> \<le> pow2 (e + 1) * of_int b"
      by (rule mult_left_mono) (use bl' pow2_pos [of "e + 1"] in simp_all)
    finally show ?thesis unfolding m using bpos by (simp add: pos_divide_less_eq)
  qed
  have ex: "exponent m = (if pow2 e \<le> m then e else e - 1)"
    using q by (simp add: exponent_def Let_def e_def la_def lb_def)
  show ?thesis
  proof (cases "pow2 e \<le> m")
    case True
    with ex upper show ?thesis by simp
  next
    case False
    with ex lower show ?thesis by simp
  qed
qed

lemma exponent_ge:
  assumes "pow2 k \<le> m"
  shows "k \<le> exponent m"
proof -
  from assms pow2_pos [of k] have "0 < m" by simp
  from exponent_bounds [OF this] assms have "pow2 k < pow2 (exponent m + 1)" by simp
  then have "k < exponent m + 1" by (rule pow2_less_cancel)
  then show ?thesis by simp
qed

lemma pow2_strict: "a < b \<Longrightarrow> pow2 a < pow2 b"
  by (simp add: pow2_powi power_int_strict_increasing)

lemma exponent_le:
  assumes "0 < m" and "m \<le> pow2 k"
  shows "exponent m \<le> k"
proof (rule ccontr)
  assume "\<not> exponent m \<le> k"
  then have "k < exponent m" by simp
  then have "pow2 k < pow2 (exponent m)" by (rule pow2_strict)
  also from exponent_bounds [OF assms(1)] have "\<dots> \<le> m" by simp
  finally show False using assms(2) by simp
qed

text \<open>
  Rounding to a float magnitude: the error is at most half a unit in the last place, and a
  value bounded by a power of two stays bounded by it.
\<close>

lemma round_magnitude_nonneg: "0 \<le> m \<Longrightarrow> 0 \<le> round_magnitude m"
proof -
  assume m: "0 \<le> m"
  show ?thesis
  proof (cases "m = 0")
    case True
    then show ?thesis by (simp add: round_magnitude_def)
  next
    case False
    define ulp where "ulp = pow2 (max (exponent m) (- 1022) - 52)"
    have u: "0 < ulp" unfolding ulp_def by (rule pow2_pos)
    from m u have "0 \<le> m / ulp" by simp
    then have "0 \<le> round_half_even (m / ulp)" by (rule round_half_even_nonneg)
    then have "0 \<le> (of_int (round_half_even (m / ulp)) :: rat) * ulp" using u by simp
    with False show ?thesis by (simp add: round_magnitude_def Let_def ulp_def)
  qed
qed

lemma round_magnitude_error:
  assumes "pow2 k \<le> m" and "- 1022 \<le> k"
  shows "\<bar>round_magnitude m - m\<bar> \<le> m / 2 ^ 53"
proof -
  from assms(1) pow2_pos [of k] have pos: "0 < m" by simp
  from exponent_ge [OF assms(1)] assms(2) have e: "- 1022 \<le> exponent m" by simp
  define ulp where "ulp = pow2 (exponent m - 52)"
  have u: "0 < ulp" unfolding ulp_def by (rule pow2_pos)
  define x where "x = m / ulp"
  have mx: "m = x * ulp" using u by (simp add: x_def)
  have rm: "round_magnitude m = of_int (round_half_even x) * ulp"
    using pos e by (simp add: round_magnitude_def Let_def ulp_def x_def max_def)
  have "\<bar>round_magnitude m - m\<bar> = \<bar>of_int (round_half_even x) - x\<bar> * ulp"
  proof -
    have "round_magnitude m - m = (of_int (round_half_even x) - x) * ulp"
      unfolding rm using mx by (simp add: algebra_simps)
    then show ?thesis using u by (simp add: abs_mult)
  qed
  also have "\<dots> \<le> (1 / 2) * ulp"
    by (rule mult_right_mono) (use round_half_even_error [of x] u in simp_all)
  also have "\<dots> = pow2 (exponent m) / 2 ^ 53"
  proof -
    have "pow2 (exponent m) = pow2 (exponent m - 52 + 52)" by simp
    also have "\<dots> = ulp * pow2 52" unfolding ulp_def by (rule pow2_add)
    finally have "pow2 (exponent m) = ulp * 2 ^ 52" by (simp add: pow2_def)
    then show ?thesis by simp
  qed
  also have "\<dots> \<le> m / 2 ^ 53"
    using exponent_bounds [OF pos] by (simp add: divide_right_mono)
  finally show ?thesis .
qed

lemma round_magnitude_le_pow2:
  assumes "0 \<le> m" and "m \<le> pow2 k" and "- 1074 \<le> k"
  shows "round_magnitude m \<le> pow2 k"
proof (cases "m = 0")
  case True
  then show ?thesis using pow2_pos [of k] by (simp add: round_magnitude_def)
next
  case False
  with assms(1) have pos: "0 < m" by simp
  define E where "E = max (exponent m) (- 1022) - 52"
  define ulp where "ulp = pow2 E"
  have u: "0 < ulp" unfolding ulp_def by (rule pow2_pos)
  from exponent_le [OF pos assms(2)] assms(3) have Ek: "E \<le> k" by (simp add: E_def)
  define N where "N = (2::int) ^ nat (k - E)"
  have pk: "pow2 k = of_int N * ulp"
  proof -
    have "pow2 k = pow2 (k - E + E)" by simp
    also have "\<dots> = pow2 (k - E) * pow2 E" by (rule pow2_add)
    also have "pow2 (k - E) = of_int N" using Ek by (simp add: pow2_def N_def)
    finally show ?thesis by (simp add: ulp_def)
  qed
  have "m / ulp \<le> of_int N" using assms(2) u unfolding pk by (simp add: pos_divide_le_eq)
  then have "round_half_even (m / ulp) \<le> N" by (rule round_half_even_le)
  then have "(of_int (round_half_even (m / ulp)) :: rat) \<le> of_int N" by simp
  then have "of_int (round_half_even (m / ulp)) * ulp \<le> of_int N * ulp"
    using u by (simp add: mult_right_mono)
  with False show ?thesis unfolding pk by (simp add: round_magnitude_def Let_def ulp_def E_def)
qed

text \<open>
  The quotient of two magnitudes between \<open>pow2 (- 1000)\<close> and \<open>pow2 1000\<close>, rounded, times
  100, rounded: neither step overflows, and the result is within the relative error
  \<open>1 / 2 ^ 51\<close> of the exact percentage.
\<close>

lemma pow2_1007: "100 * pow2 1000 \<le> pow2 1007"
proof -
  have "pow2 1007 = pow2 (1000 + 7)" by simp
  also have "\<dots> = pow2 1000 * pow2 7" by (rule pow2_add)
  also have "pow2 7 = 128" by (simp add: pow2_def)
  finally show ?thesis using pow2_pos [of 1000] by simp
qed

lemma not_overflows: "m \<le> pow2 k \<Longrightarrow> k < 1024 \<Longrightarrow> \<not> overflows m"
proof -
  assume a: "m \<le> pow2 k" and k: "k < 1024"
  from k have "pow2 k < pow2 1024" by (rule pow2_strict)
  with a show ?thesis by (simp add: overflows_def)
qed

lemma percent_value_bounds:
  assumes lo: "pow2 (- 1000) \<le> q" and hi: "q \<le> pow2 1000"
  shows "\<not> overflows (round_magnitude q)"
    and "\<not> overflows (round_magnitude (round_magnitude q * 100))"
    and "\<bar>round_magnitude (round_magnitude q * 100) - 100 * q\<bar> \<le> 100 * q / 2 ^ 51"
proof -
  define r where "r = round_magnitude q"
  define p where "p = r * 100"
  define d where "d = round_magnitude p"
  from lo pow2_pos [of "- 1000"] have qpos: "0 < q" by simp
  have r_err: "\<bar>r - q\<bar> \<le> q / 2 ^ 53"
    unfolding r_def by (rule round_magnitude_error [OF lo]) simp
  have r_le: "r \<le> pow2 1000"
    unfolding r_def by (rule round_magnitude_le_pow2) (use qpos hi in simp_all)
  have small: "q / 2 ^ 53 \<le> q / 2" using qpos by (simp add: field_simps)
  from r_err small have half: "\<bar>r - q\<bar> \<le> q / 2" by (rule order_trans)
  from half have r_ge: "q / 2 \<le> r" by linarith
  from half qpos have r_up: "r \<le> 2 * q" by linarith
  have p_lo: "pow2 (- 1000) \<le> p"
  proof -
    have "pow2 (- 1000) \<le> q" by (rule lo)
    also have "q \<le> 50 * q" using qpos by simp
    also have "\<dots> \<le> p" unfolding p_def using r_ge by simp
    finally show ?thesis .
  qed
  have p_hi: "p \<le> pow2 1007"
  proof -
    have "p \<le> 100 * pow2 1000" unfolding p_def using r_le by simp
    also have "\<dots> \<le> pow2 1007" by (rule pow2_1007)
    finally show ?thesis .
  qed
  have ppos: "0 < p" using p_lo pow2_pos [of "- 1000"] by simp
  have d_err: "\<bar>d - p\<bar> \<le> p / 2 ^ 53"
    unfolding d_def by (rule round_magnitude_error [OF p_lo]) simp
  have d_le: "d \<le> pow2 1007"
    unfolding d_def by (rule round_magnitude_le_pow2) (use ppos p_hi in simp_all)
  show "\<not> overflows (round_magnitude q)"
    using r_le unfolding r_def by (rule not_overflows) simp
  show "\<not> overflows (round_magnitude (round_magnitude q * 100))"
    using d_le unfolding d_def p_def r_def by (rule not_overflows) simp
  have "\<bar>d - 100 * q\<bar> \<le> \<bar>d - p\<bar> + \<bar>p - 100 * q\<bar>" by simp
  also have "\<bar>p - 100 * q\<bar> = 100 * \<bar>r - q\<bar>" unfolding p_def by (simp add: abs_if)
  also have "\<bar>d - p\<bar> + 100 * \<bar>r - q\<bar> \<le> p / 2 ^ 53 + 100 * (q / 2 ^ 53)"
    using d_err r_err by simp
  also have "\<dots> \<le> (200 * q) / 2 ^ 53 + 100 * (q / 2 ^ 53)"
  proof -
    have "p \<le> 200 * q" unfolding p_def using r_up by simp
    then have "p / 2 ^ 53 \<le> (200 * q) / 2 ^ 53" by (simp add: divide_right_mono)
    then show ?thesis by simp
  qed
  also have "\<dots> \<le> 100 * q / 2 ^ 51" using qpos by (simp add: field_simps)
  finally show "\<bar>round_magnitude (round_magnitude q * 100) - 100 * q\<bar> \<le> 100 * q / 2 ^ 51"
    unfolding d_def p_def r_def .
qed

text \<open>
  The percentage of two integers of magnitude below \<open>2 ^ 1000\<close>, the total positive: the
  computation does not raise and its value is finite; the text printed for a finite value
  is a decimal with one place, within one twentieth of the value.
\<close>

lemma exponent_unique:
  assumes "pow2 e \<le> m" and "m < pow2 (e + 1)"
  shows "exponent m = e"
proof -
  from assms(1) pow2_pos [of e] have pos: "0 < m" by simp
  have ge: "e \<le> exponent m" using assms(1) by (rule exponent_ge)
  from exponent_bounds [OF pos] assms(2) have "pow2 (exponent m) < pow2 (e + 1)" by simp
  then have "exponent m < e + 1" by (rule pow2_less_cancel)
  with ge show ?thesis by simp
qed

lemma percent_float_numbers:
  assumes n: "0 < n" "n < 2 ^ 1000" and m: "\<bar>m\<bar> < 2 ^ 1000"
  shows "\<exists>d. percent_float m n = Inr (Finite (m < 0) d) \<and> 0 \<le> d
           \<and> \<bar>d - 100 * \<bar>of_int m\<bar> / of_int n\<bar> \<le> 100 * \<bar>of_int m\<bar> / of_int n / 2 ^ 51"
proof (cases "m = 0")
  case True
  then show ?thesis using n
    by (simp add: percent_float_def true_divide_def attempt_def float_mul_def round_magnitude_def
          overflows_def pow2_def Let_def)
next
  case False
  define q :: rat where "q = \<bar>of_int m\<bar> / of_int n"
  have npos: "(0::rat) < of_int n" using n(1) by simp
  have m1: "(1::rat) \<le> \<bar>of_int m\<bar>"
  proof -
    from False have "1 \<le> \<bar>m\<bar>" by simp
    then have "(of_int 1 :: rat) \<le> of_int \<bar>m\<bar>" by (simp only: of_int_le_iff)
    then show ?thesis by simp
  qed
  have mhi: "\<bar>of_int m\<bar> \<le> (2::rat) ^ 1000"
  proof -
    from m have "(of_int \<bar>m\<bar> :: rat) \<le> of_int (2 ^ 1000)" by (simp only: of_int_le_iff)
    then show ?thesis by simp
  qed
  have nhi: "of_int n \<le> (2::rat) ^ 1000"
  proof -
    from n(2) have "(of_int n :: rat) \<le> of_int (2 ^ 1000)" by (simp only: of_int_le_iff)
    then show ?thesis by simp
  qed
  have n1: "(1::rat) \<le> of_int n"
  proof -
    from n(1) have "1 \<le> n" by simp
    then have "(of_int 1 :: rat) \<le> of_int n" by (simp only: of_int_le_iff)
    then show ?thesis by simp
  qed
  have p1000: "pow2 1000 = 2 ^ 1000" by (simp add: pow2_def)
  have pm1000: "pow2 (- 1000) = 1 / 2 ^ 1000" by (simp add: pow2_def)
  have lo: "pow2 (- 1000) \<le> q"
  proof -
    have "1 / 2 ^ 1000 \<le> 1 / (of_int n :: rat)" using nhi npos by (simp add: frac_le)
    also have "\<dots> \<le> \<bar>of_int m\<bar> / of_int n" using m1 npos by (simp add: divide_right_mono)
    finally show ?thesis unfolding q_def pm1000 .
  qed
  have hi: "q \<le> pow2 1000"
  proof -
    have "\<bar>of_int m\<bar> / of_int n \<le> \<bar>of_int m :: rat\<bar> / 1" using n1 by (intro divide_left_mono) simp_all
    also have "\<dots> \<le> 2 ^ 1000" using mhi by simp
    finally show ?thesis unfolding q_def p1000 .
  qed
  note b = percent_value_bounds [OF lo hi]
  have qabs: "\<bar>of_int m :: rat\<bar> / \<bar>of_int n\<bar> = q" using npos by (simp add: q_def)
  have sign: "((m < 0) \<noteq> (n < 0)) = (m < 0)" using n(1) by simp
  have nz: "n \<noteq> 0" using n(1) by simp
  have pf: "percent_float m n = Inr (Finite (m < 0) (round_magnitude (round_magnitude q * 100)))"
    using b(1) b(2) nz n(1)
    by (simp add: percent_float_def true_divide_def attempt_def float_mul_def Let_def q_def)
  have qpos: "0 \<le> q" using npos by (simp add: q_def)
  have "0 \<le> round_magnitude (round_magnitude q * 100)"
    by (rule round_magnitude_nonneg) (use round_magnitude_nonneg [OF qpos] in simp)
  moreover have "\<bar>round_magnitude (round_magnitude q * 100) - 100 * \<bar>of_int m\<bar> / of_int n\<bar>
      \<le> 100 * \<bar>of_int m\<bar> / of_int n / 2 ^ 51"
    using b(3) by (simp add: q_def)
  ultimately show ?thesis using pf by blast
qed

lemma format_1f_finite:
  assumes "0 \<le> d"
  shows "\<exists>k. format_1f (Finite s d) = (if s then ''-'' else []) @ dec (k div 10) @ ''.'' @ dec (k mod 10)
           \<and> \<bar>of_nat k / 10 - d\<bar> \<le> 1 / 20"
proof -
  define k where "k = nat (round_half_even (d * 10))"
  from assms have "0 \<le> d * 10" by simp
  then have "0 \<le> round_half_even (d * 10)" by (rule round_half_even_nonneg)
  then have kr: "(of_nat k :: rat) = of_int (round_half_even (d * 10))" by (simp add: k_def)
  from round_half_even_error [of "d * 10"] have "\<bar>of_nat k - d * 10\<bar> \<le> 1 / 2" unfolding kr .
  then have "\<bar>of_nat k / 10 - d\<bar> \<le> 1 / 20" by (simp add: abs_le_iff field_simps)
  moreover have "format_1f (Finite s d) = (if s then ''-'' else []) @ dec (k div 10) @ ''.'' @ dec (k mod 10)"
    by (simp add: format_1f_def Let_def k_def)
  ultimately show ?thesis by blast
qed


section \<open>Properties of the percentage of a used/total pair\<close>













lemma config_lines_filter:
  "config_lines env p config [] = map (config_line env) (filter (\<lambda>item. p (fst item)) config)"
  by (simp add: config_lines_eq)

lemma collect_keys_filter:
  assumes "distinct (map fst config)"
  shows "collect_keys p config [] = filter (\<lambda>item. p (fst item)) config"
  using collect_keys_eq [OF assms, of "[]" p] by simp

text \<open>
  C6 (as amended). \<open>container_config\<close> renders as network interfaces exactly the entries
  whose key has the prefix \<open>net\<close> and is not \<open>netif\<close>, and as storage exactly the entries
  whose key has the prefix \<open>mp\<close> or is \<open>rootfs\<close>, each group in the configuration's order
  and only when it is not empty. \<open>get_template_details\<close> and \<open>get_templates\<close> project as
  disks exactly the entries whose key has the prefix \<open>scsi\<close>, \<open>ide\<close> or \<open>sata\<close>, and
  \<open>get_template_details\<close> projects as networks exactly the entries whose key has the
  prefix \<open>net\<close>, the key \<open>netif\<close> included. No other entry appears in a bucket.
\<close>

theorem config_key_buckets:
  "container_config env config =
     join newline
       ([section_icon env ''configuration'' @ '' Container Configuration'',
         [],
         bullet @ ''Hostname: '' @ show_value env (dict_get_default config ''hostname'' (JStr ''N/A'')),
         bullet @ ''CPU: '' @ show_value env (dict_get_default config ''cores'' (JStr ''N/A'')) @ '' cores'',
         bullet @ ''Memory: '' @ show_value env (dict_get_default config ''memory'' (JStr ''N/A'')) @ '' MB'',
         bullet @ ''Swap: '' @ show_value env (dict_get_default config ''swap'' (JStr ''N/A'')) @ '' MB'',
         bullet @ ''Start on boot: ''
           @ (if py_eq_int (dict_get_default config ''onboot'' (JInt 0)) 1 then ''Yes'' else ''No'')]
        @ (if filter (\<lambda>item. prefix ''net'' (fst item) \<and> fst item \<noteq> ''netif'') config = [] then []
           else [[], section_icon env ''network'' @ '' Network Interfaces'']
                @ map (config_line env)
                      (filter (\<lambda>item. prefix ''net'' (fst item) \<and> fst item \<noteq> ''netif'') config))
        @ (if filter (\<lambda>item. prefix ''mp'' (fst item) \<or> fst item = ''rootfs'') config = [] then []
           else [[], section_icon env ''storage'' @ '' Storage'']
                @ map (config_line env)
                      (filter (\<lambda>item. prefix ''mp'' (fst item) \<or> fst item = ''rootfs'') config)))
   \<and> (qemu_get api node vmid = Inr vm_info \<and> py_eq_int (dict_get vm_info ''template'') 1
        \<and> qemu_config_get api node vmid = Inr config \<and> distinct (map fst config) \<longrightarrow>
        field (response_data (get_template_details api node vmid)) ''disks'' =
          Some (JObj (filter (\<lambda>item. prefix ''scsi'' (fst item) \<or> prefix ''ide'' (fst item)
                                      \<or> prefix ''sata'' (fst item)) config))
        \<and> field (response_data (get_template_details api node vmid)) ''networks'' =
          Some (JObj (filter (\<lambda>item. prefix ''net'' (fst item)) config)))
   \<and> (truthy (dict_get template ''vmid'')
        \<and> qemu_config_get api node (py_str rp (dict_get template ''vmid'')) = Inr config
        \<and> distinct (map fst config) \<longrightarrow>
        map_of (fst (enrich_template api rp node template)) ''disks'' =
          Some (JObj (filter (\<lambda>item. prefix ''scsi'' (fst item) \<or> prefix ''ide'' (fst item)
                                      \<or> prefix ''sata'' (fst item)) config)))"
proof (intro conjI impI)
  show "container_config env config =
     join newline
       ([section_icon env ''configuration'' @ '' Container Configuration'',
         [],
         bullet @ ''Hostname: '' @ show_value env (dict_get_default config ''hostname'' (JStr ''N/A'')),
         bullet @ ''CPU: '' @ show_value env (dict_get_default config ''cores'' (JStr ''N/A'')) @ '' cores'',
         bullet @ ''Memory: '' @ show_value env (dict_get_default config ''memory'' (JStr ''N/A'')) @ '' MB'',
         bullet @ ''Swap: '' @ show_value env (dict_get_default config ''swap'' (JStr ''N/A'')) @ '' MB'',
         bullet @ ''Start on boot: ''
           @ (if py_eq_int (dict_get_default config ''onboot'' (JInt 0)) 1 then ''Yes'' else ''No'')]
        @ (if filter (\<lambda>item. prefix ''net'' (fst item) \<and> fst item \<noteq> ''netif'') config = [] then []
           else [[], section_icon env ''network'' @ '' Network Interfaces'']
                @ map (config_line env)
                      (filter (\<lambda>item. prefix ''net'' (fst item) \<and> fst item \<noteq> ''netif'') config))
        @ (if filter (\<lambda>item. prefix ''mp'' (fst item) \<or> fst item = ''rootfs'') config = [] then []
           else [[], section_icon env ''storage'' @ '' Storage'']
                @ map (config_line env)
                      (filter (\<lambda>item. prefix ''mp'' (fst item) \<or> fst item = ''rootfs'') config)))"
    unfolding container_config_def Let_def config_lines_filter interface_key_def mount_key_def
    by simp
next
  assume h: "qemu_get api node vmid = Inr vm_info \<and> py_eq_int (dict_get vm_info ''template'') 1
        \<and> qemu_config_get api node vmid = Inr config \<and> distinct (map fst config)"
  then have d: "distinct (map fst config)" by simp
  from h have out: "response_data (get_template_details api node vmid) =
      JObj (set_item (set_item
         [(''vmid'', JStr vmid),
          (''node'', JStr node),
          (''name'', dict_get_default vm_info ''name'' (JStr (''vm-'' @ vmid))),
          (''description'', dict_get_default config ''description'' (JStr ''No description'')),
          (''cores'', dict_get_default config ''cores'' (JStr ''N/A'')),
          (''memory'', dict_get_default config ''memory'' (JStr ''N/A'')),
          (''os_type'', dict_get_default config ''ostype'' (JStr ''N/A''))]
         ''disks'' (JObj (collect_keys disk_key config [])))
         ''networks'' (JObj (collect_keys network_key config [])))"
    by (simp add: get_template_details_def Let_def response_data_def)
  show "field (response_data (get_template_details api node vmid)) ''disks'' =
          Some (JObj (filter (\<lambda>item. prefix ''scsi'' (fst item) \<or> prefix ''ide'' (fst item)
                                      \<or> prefix ''sata'' (fst item)) config))"
    unfolding out collect_keys_filter [OF d] disk_key_def
    by (simp add: set_item_def)
  show "field (response_data (get_template_details api node vmid)) ''networks'' =
          Some (JObj (filter (\<lambda>item. prefix ''net'' (fst item)) config))"
    unfolding out collect_keys_filter [OF d] network_key_def
    by (simp add: set_item_def)
next
  assume h: "truthy (dict_get template ''vmid'')
        \<and> qemu_config_get api node (py_str rp (dict_get template ''vmid'')) = Inr config
        \<and> distinct (map fst config)"
  then have d: "distinct (map fst config)" by simp
  have v: "dict_get (AList.update ''node'' (JStr node) template) ''vmid'' = dict_get template ''vmid''"
    by (simp add: dict_get_def update_conv')
  from h show "map_of (fst (enrich_template api rp node template)) ''disks'' =
          Some (JObj (filter (\<lambda>item. prefix ''scsi'' (fst item) \<or> prefix ''ide'' (fst item)
                                      \<or> prefix ''sata'' (fst item)) config))"
    by (simp add: enrich_template_def Let_def v collect_keys_filter [OF d] disk_key_def set_item_def
          update_conv')
qed

theorem config_key_buckets_witness:
  "container_config demo_env
      [(''hostname'', JStr ''web''), (''net0'', JStr ''veth''), (''netif'', JStr ''legacy''),
       (''mp0'', JStr ''data''), (''rootfs'', JStr ''root''), (''network'', JStr ''x'')]
     = join newline
         [''= Container Configuration'', [],
          bullet @ ''Hostname: web'', bullet @ ''CPU: N/A cores'', bullet @ ''Memory: N/A MB'',
          bullet @ ''Swap: N/A MB'', bullet @ ''Start on boot: No'',
          [], ''= Network Interfaces'', bullet @ ''net0: veth'', bullet @ ''network: x'',
          [], ''= Storage'', bullet @ ''mp0: data'', bullet @ ''rootfs: root'']
   \<and> field (response_data (get_template_details demo_cluster ''pve1'' ''9000'')) ''disks''
     = Some (JObj [(''scsi0'', JStr ''local:vm-9000-disk-0'')])"
proof -
  let ?config = "[(''hostname'', JStr ''web''), (''net0'', JStr ''veth''), (''netif'', JStr ''legacy''),
       (''mp0'', JStr ''data''), (''rootfs'', JStr ''root''), (''network'', JStr ''x'')]"
  let ?vm = "[(''template'', JInt 1), (''cores'', JInt 2), (''scsi0'', JStr ''local:vm-9000-disk-0''),
       (''net0'', JStr ''virtio,bridge=vmbr0''), (''netif'', JStr ''legacy'')]"
  have icons: "section_icon demo_env ''configuration'' = ''=''" "section_icon demo_env ''network'' = ''=''"
    "section_icon demo_env ''storage'' = ''=''"
    by (simp_all add: demo_env_def)
  have shown: "\<And>s. show_value demo_env (JStr s) = s"
    by (simp add: show_value_def)
  from config_key_buckets [where env = demo_env and config = ?config]
  have "container_config demo_env ?config =
     join newline
       ([section_icon demo_env ''configuration'' @ '' Container Configuration'',
         [],
         bullet @ ''Hostname: '' @ show_value demo_env (dict_get_default ?config ''hostname'' (JStr ''N/A'')),
         bullet @ ''CPU: '' @ show_value demo_env (dict_get_default ?config ''cores'' (JStr ''N/A'')) @ '' cores'',
         bullet @ ''Memory: '' @ show_value demo_env (dict_get_default ?config ''memory'' (JStr ''N/A'')) @ '' MB'',
         bullet @ ''Swap: '' @ show_value demo_env (dict_get_default ?config ''swap'' (JStr ''N/A'')) @ '' MB'',
         bullet @ ''Start on boot: ''
           @ (if py_eq_int (dict_get_default ?config ''onboot'' (JInt 0)) 1 then ''Yes'' else ''No'')]
        @ (if filter (\<lambda>item. prefix ''net'' (fst item) \<and> fst item \<noteq> ''netif'') ?config = [] then []
           else [[], section_icon demo_env ''network'' @ '' Network Interfaces'']
                @ map (config_line demo_env)
                      (filter (\<lambda>item. prefix ''net'' (fst item) \<and> fst item \<noteq> ''netif'') ?config))
        @ (if filter (\<lambda>item. prefix ''mp'' (fst item) \<or> fst item = ''rootfs'') ?config = [] then []
           else [[], section_icon demo_env ''storage'' @ '' Storage'']
                @ map (config_line demo_env)
                      (filter (\<lambda>item. prefix ''mp'' (fst item) \<or> fst item = ''rootfs'') ?config)))"
    by (rule conjunct1)
  then have rendered: "container_config demo_env ?config
     = join newline
         [''= Container Configuration'', [],
          bullet @ ''Hostname: web'', bullet @ ''CPU: N/A cores'', bullet @ ''Memory: N/A MB'',
          bullet @ ''Swap: N/A MB'', bullet @ ''Start on boot: No'',
          [], ''= Network Interfaces'', bullet @ ''net0: veth'', bullet @ ''network: x'',
          [], ''= Storage'', bullet @ ''mp0: data'', bullet @ ''rootfs: root'']"
    by (simp add: icons shown dict_get_default_def config_line_def)
  have h: "qemu_get demo_cluster ''pve1'' ''9000'' = Inr [(''name'', JStr ''base''), (''template'', JInt 1)]
        \<and> py_eq_int (dict_get [(''name'', JStr ''base''), (''template'', JInt 1)] ''template'') 1
        \<and> qemu_config_get demo_cluster ''pve1'' ''9000'' = Inr ?vm \<and> distinct (map fst ?vm)"
    by (simp add: demo_cluster_def dict_get_def)
  from config_key_buckets [where api = demo_cluster and node = "''pve1''" and vmid = "''9000''"
      and vm_info = "[(''name'', JStr ''base''), (''template'', JInt 1)]" and config = ?vm]
  have "qemu_get demo_cluster ''pve1'' ''9000'' = Inr [(''name'', JStr ''base''), (''template'', JInt 1)]
        \<and> py_eq_int (dict_get [(''name'', JStr ''base''), (''template'', JInt 1)] ''template'') 1
        \<and> qemu_config_get demo_cluster ''pve1'' ''9000'' = Inr ?vm \<and> distinct (map fst ?vm) \<longrightarrow>
        field (response_data (get_template_details demo_cluster ''pve1'' ''9000'')) ''disks'' =
          Some (JObj (filter (\<lambda>item. prefix ''scsi'' (fst item) \<or> prefix ''ide'' (fst item)
                                      \<or> prefix ''sata'' (fst item)) ?vm))
        \<and> field (response_data (get_template_details demo_cluster ''pve1'' ''9000'')) ''networks'' =
          Some (JObj (filter (\<lambda>item. prefix ''net'' (fst item)) ?vm))"
    by (rule conjunct2 [THEN conjunct1])
  with h have "field (response_data (get_template_details demo_cluster ''pve1'' ''9000'')) ''disks'' =
          Some (JObj (filter (\<lambda>item. prefix ''scsi'' (fst item) \<or> prefix ''ide'' (fst item)
                                      \<or> prefix ''sata'' (fst item)) ?vm))"
    by (rule mp [THEN conjunct1, rotated])
  then have "field (response_data (get_template_details demo_cluster ''pve1'' ''9000'')) ''disks''
     = Some (JObj [(''scsi0'', JStr ''local:vm-9000-disk-0'')])"
    by simp
  with rendered show ?thesis by (intro conjI)
qed

text \<open>
  The claim as written excludes \<open>netif\<close> from the network bucket everywhere. For the
  template 9000, whose configuration has the keys \<open>net0\<close> and \<open>netif\<close>,
  \<open>get_template_details\<close> puts both into \<open>networks\<close>.
\<close>

theorem template_details_networks_include_netif:
  "field (response_data (get_template_details demo_cluster ''pve1'' ''9000'')) ''networks''
     = Some (JObj [(''net0'', JStr ''virtio,bridge=vmbr0''), (''netif'', JStr ''legacy'')])"
  by (simp add: get_template_details_def demo_cluster_def Let_def response_data_def dict_get_def
        network_key_def disk_key_def set_item_def)


section \<open>Properties of the API script: cloning and waiting\<close>

lemma randint_range: "100 \<le> randint 100 999 entropy \<and> randint 100 999 entropy \<le> 999"
proof -
  have "entropy mod 900 < 900" by simp
  then show ?thesis by (simp add: randint_def)
qed

text \<open>
  C10. When the cluster's next-id query raises, \<open>clone_template\<close> reports no error for
  it: it posts the clone with a new VM ID drawn at random from 100 to 999 and, if the
  post succeeds, returns a success result carrying that ID. The ID depends on the draw, not
  only on the arguments and the remote answers: with the same client and the same
  arguments, two draws post clones with different new VM IDs.
\<close>

theorem clone_template_random_fallback:
  assumes "cluster_nextid_get api = Inl e"
  shows "100 \<le> randint 100 999 entropy \<and> randint 100 999 entropy \<le> 999
       \<and> snd (clone_template api rp entropy node template_vmid new_vm_name target_node full_clone storage)
           = [clone_params (JInt (randint 100 999 entropy)) new_vm_name target_node full_clone storage]
       \<and> (\<forall>r. qemu_clone_post api node template_vmid
                  (clone_params (JInt (randint 100 999 entropy)) new_vm_name target_node full_clone storage)
                = Inr r \<longrightarrow>
             field (fst (clone_template api rp entropy node template_vmid new_vm_name target_node
                           full_clone storage)) ''success'' = Some (JBool True)
           \<and> field (fst (clone_template api rp entropy node template_vmid new_vm_name target_node
                           full_clone storage)) ''new_vmid'' = Some (JInt (randint 100 999 entropy))
           \<and> field (fst (clone_template api rp entropy node template_vmid new_vm_name target_node
                           full_clone storage)) ''error'' = None)
       \<and> snd (clone_template api rp 0 node template_vmid new_vm_name target_node full_clone storage)
           \<noteq> snd (clone_template api rp 1 node template_vmid new_vm_name target_node full_clone storage)"
proof (intro conjI allI impI)
  show "100 \<le> randint 100 999 entropy" "randint 100 999 entropy \<le> 999"
    using randint_range by simp_all
  have next_vmid: "\<And>n. get_next_vmid api n = JInt (randint 100 999 n)"
    using assms by (simp add: get_next_vmid_def)
  show "snd (clone_template api rp entropy node template_vmid new_vm_name target_node full_clone storage)
           = [clone_params (JInt (randint 100 999 entropy)) new_vm_name target_node full_clone storage]"
    by (simp add: clone_template_def next_vmid Let_def split: sum.splits)
  have p: "\<And>n. snd (clone_template api rp n node template_vmid new_vm_name target_node full_clone storage)
           = [clone_params (JInt (randint 100 999 n)) new_vm_name target_node full_clone storage]"
    by (simp add: clone_template_def next_vmid Let_def split: sum.splits)
  show "snd (clone_template api rp 0 node template_vmid new_vm_name target_node full_clone storage)
           \<noteq> snd (clone_template api rp 1 node template_vmid new_vm_name target_node full_clone storage)"
    unfolding p by (simp add: clone_params_def randint_def)
next
  fix r
  assume "qemu_clone_post api node template_vmid
            (clone_params (JInt (randint 100 999 entropy)) new_vm_name target_node full_clone storage) = Inr r"
  moreover have "get_next_vmid api entropy = JInt (randint 100 999 entropy)"
    using assms by (simp add: get_next_vmid_def)
  ultimately have "\<exists>t m. fst (clone_template api rp entropy node template_vmid new_vm_name target_node
                      full_clone storage) =
      JObj [(''success'', JBool True), (''task_id'', t), (''new_vmid'', JInt (randint 100 999 entropy)),
            (''message'', JStr m)]"
    by (simp add: clone_template_def Let_def)
  then obtain t m where out: "fst (clone_template api rp entropy node template_vmid new_vm_name target_node
                      full_clone storage) =
      JObj [(''success'', JBool True), (''task_id'', t), (''new_vmid'', JInt (randint 100 999 entropy)),
            (''message'', JStr m)]"
    by (elim exE)
  show "field (fst (clone_template api rp entropy node template_vmid new_vm_name target_node
                           full_clone storage)) ''success'' = Some (JBool True)"
    unfolding out by simp
  show "field (fst (clone_template api rp entropy node template_vmid new_vm_name target_node
                           full_clone storage)) ''new_vmid'' = Some (JInt (randint 100 999 entropy))"
    unfolding out by simp
  show "field (fst (clone_template api rp entropy node template_vmid new_vm_name target_node
                           full_clone storage)) ''error'' = None"
    unfolding out by simp
qed

theorem clone_template_random_fallback_witness:
  "cluster_nextid_get demo_cluster = Inl ''timed out''
   \<and> snd (clone_template demo_cluster plain_repr 42 ''pve1'' ''9000'' ''web2'' None True None)
       = [[(''newid'', JInt 142), (''name'', JStr ''web2''), (''full'', JInt 1)]]
   \<and> snd (clone_template demo_cluster plain_repr 7 ''pve1'' ''9000'' ''web2'' None True None)
       = [[(''newid'', JInt 107), (''name'', JStr ''web2''), (''full'', JInt 1)]]"
proof -
  have h: "cluster_nextid_get demo_cluster = Inl ''timed out''"
    by (simp add: demo_cluster_def)
  from clone_template_random_fallback [OF h, of 42 plain_repr "''pve1''" "''9000''" "''web2''" None True None]
  have "snd (clone_template demo_cluster plain_repr 42 ''pve1'' ''9000'' ''web2'' None True None)
       = [clone_params (JInt (randint 100 999 42)) ''web2'' None True None]"
    by (rule conjunct2 [THEN conjunct2, THEN conjunct1])
  then have a: "snd (clone_template demo_cluster plain_repr 42 ''pve1'' ''9000'' ''web2'' None True None)
       = [[(''newid'', JInt 142), (''name'', JStr ''web2''), (''full'', JInt 1)]]"
    by (simp add: clone_params_def randint_def)
  from clone_template_random_fallback [OF h, of 7 plain_repr "''pve1''" "''9000''" "''web2''" None True None]
  have "snd (clone_template demo_cluster plain_repr 7 ''pve1'' ''9000'' ''web2'' None True None)
       = [clone_params (JInt (randint 100 999 7)) ''web2'' None True None]"
    by (rule conjunct2 [THEN conjunct2, THEN conjunct1])
  then have b: "snd (clone_template demo_cluster plain_repr 7 ''pve1'' ''9000'' ''web2'' None True None)
       = [[(''newid'', JInt 107), (''name'', JStr ''web2''), (''full'', JInt 1)]]"
    by (simp add: clone_params_def randint_def)
  from h a b show ?thesis by (intro conjI)
qed







end
